theory Spec2Isabelle
  imports Main "HOL-Library.Char_ord" "HOL-Library.List_Lexorder" "HOL-Library.Multiset"
begin

section \<open>Python values\<close>

text \<open>
  The values the ledger handles are the JSON-serialisable Python values: \<open>None\<close>, booleans,
  integers (unbounded), strings, lists and dictionaries with string keys. A dictionary is an
  association list in insertion order; a well-formed one has distinct keys. Strings are lists
  of 8-bit characters, read as the code points U+0000 to U+00FF. Floating-point numbers are not
  part of the embedding.
\<close>

datatype py =
    PNone
  | PBool bool
  | PInt int
  | PStr string
  | PList "py list"
  | PDict "(string \<times> py) list"

text \<open>\<open>d.get(k, default)\<close>, \<open>d[k] = v\<close> on a dictionary.\<close>

fun dict_get :: "(string \<times> py) list \<Rightarrow> string \<Rightarrow> py \<Rightarrow> py" where
  "dict_get [] k dflt = dflt"
| "dict_get ((k', v) # kvs) k dflt = (if k' = k then v else dict_get kvs k dflt)"

fun dict_set :: "(string \<times> py) list \<Rightarrow> string \<Rightarrow> py \<Rightarrow> (string \<times> py) list" where
  "dict_set [] k v = [(k, v)]"
| "dict_set ((k', v') # kvs) k v = (if k' = k then (k, v) # kvs else (k', v') # dict_set kvs k v)"

section \<open>\<open>json.dumps\<close>\<close>

definition hex_char :: "nat \<Rightarrow> char" where
  "hex_char n = (''0123456789abcdef'' ! n)"

text \<open>
  \<open>ensure_ascii\<close> escaping of one character: the two-character escapes, and
  \<open>\u00XX\<close> for every other character outside the printable ASCII range.
\<close>

definition escape_char :: "char \<Rightarrow> string" where
  "escape_char c =
    (if c = CHR 0x22 then [CHR 0x5C, CHR 0x22]
     else if c = CHR 0x5C then [CHR 0x5C, CHR 0x5C]
     else if c = CHR 0x0A then [CHR 0x5C, CHR ''n'']
     else if c = CHR 0x0D then [CHR 0x5C, CHR ''r'']
     else if c = CHR 0x09 then [CHR 0x5C, CHR ''t'']
     else if c = CHR 0x08 then [CHR 0x5C, CHR ''b'']
     else if c = CHR 0x0C then [CHR 0x5C, CHR ''f'']
     else if (of_char c :: nat) < 32 \<or> 126 < (of_char c :: nat)
       then [CHR 0x5C, CHR ''u'', CHR ''0'', CHR ''0'',
             hex_char ((of_char c :: nat) div 16), hex_char ((of_char c :: nat) mod 16)]
     else [c])"

definition quote :: "string \<Rightarrow> string" where
  "quote s = [CHR 0x22] @ concat (map escape_char s) @ [CHR 0x22]"

fun nat_repr :: "nat \<Rightarrow> string" where
  "nat_repr n = (if n < 10 then [''0123456789'' ! n]
                 else nat_repr (n div 10) @ [''0123456789'' ! (n mod 10)])"

declare nat_repr.simps [simp del]

definition int_repr :: "int \<Rightarrow> string" where
  "int_repr i = (if i < 0 then CHR ''-'' # nat_repr (nat (- i)) else nat_repr (nat i))"

fun join :: "string \<Rightarrow> string list \<Rightarrow> string" where
  "join sep [] = []"
| "join sep [x] = x"
| "join sep (x # y # ys) = x @ sep @ join sep (y # ys)"

text \<open>\<open>json.dumps(v)\<close> with the default separators \<open>', '\<close> and \<open>': '\<close>.\<close>

fun json_dumps :: "py \<Rightarrow> string" where
  "json_dumps PNone = ''null''"
| "json_dumps (PBool b) = (if b then ''true'' else ''false'')"
| "json_dumps (PInt i) = int_repr i"
| "json_dumps (PStr s) = quote s"
| "json_dumps (PList xs) = ''['' @ join '', '' (map json_dumps xs) @ '']''"
| "json_dumps (PDict kvs) =
     ''{'' @ join '', '' (map (\<lambda>(k, v). quote k @ '': '' @ json_dumps v) kvs) @ ''}''"

definition newline_indent :: "nat \<Rightarrow> string" where
  "newline_indent level = CHR 0x0A # replicate (2 * level) CHR '' ''"

text \<open>
  \<open>json.dumps(v, sort_keys=True, indent=2)\<close> at the given nesting level. The items of a
  dictionary are rendered and then ordered by key, which is what \<open>sorted(dct.items())\<close>
  yields for distinct keys; an empty container is \<open>[]\<close> or \<open>{}\<close>.
\<close>

fun dumps_sorted :: "nat \<Rightarrow> py \<Rightarrow> string" where
  "dumps_sorted level PNone = ''null''"
| "dumps_sorted level (PBool b) = (if b then ''true'' else ''false'')"
| "dumps_sorted level (PInt i) = int_repr i"
| "dumps_sorted level (PStr s) = quote s"
| "dumps_sorted level (PList xs) =
     (if xs = [] then ''[]''
      else ''['' @ newline_indent (Suc level)
           @ join ('','' @ newline_indent (Suc level)) (map (dumps_sorted (Suc level)) xs)
           @ newline_indent level @ '']'')"
| "dumps_sorted level (PDict kvs) =
     (if kvs = [] then ''{}''
      else ''{'' @ newline_indent (Suc level)
           @ join ('','' @ newline_indent (Suc level))
               (map (\<lambda>(k, r). quote k @ '': '' @ r)
                  (sort_key fst (map (\<lambda>(k, v). (k, dumps_sorted (Suc level) v)) kvs)))
           @ newline_indent level @ ''}'')"

section \<open>SHA-256\<close>

text \<open>
  \<open>hashlib.sha256(bytes).hexdigest()\<close>, following FIPS 180-4. A 32-bit word is the list
  of its 32 bits, least significant first, so that the bitwise functions, the rotations and the
  addition modulo \<open>2 ^ 32\<close> are structural; a byte of the message is a \<open>char\<close>.
\<close>

type_synonym word32 = "bool list"

fun xor3b :: "bool \<Rightarrow> bool \<Rightarrow> bool \<Rightarrow> bool" where
  "xor3b True True c = c"
| "xor3b True False c = (\<not> c)"
| "xor3b False True c = (\<not> c)"
| "xor3b False False c = c"

fun majb :: "bool \<Rightarrow> bool \<Rightarrow> bool \<Rightarrow> bool" where
  "majb True True c = True"
| "majb True False c = c"
| "majb False True c = c"
| "majb False False c = False"

fun chb :: "bool \<Rightarrow> bool \<Rightarrow> bool \<Rightarrow> bool" where
  "chb True b c = b"
| "chb False b c = c"

fun xor3 :: "word32 \<Rightarrow> word32 \<Rightarrow> word32 \<Rightarrow> word32" where
  "xor3 (a # as) (b # bs) (c # cs) = xor3b a b c # xor3 as bs cs"
| "xor3 _ _ _ = []"

fun ch :: "word32 \<Rightarrow> word32 \<Rightarrow> word32 \<Rightarrow> word32" where
  "ch (a # as) (b # bs) (c # cs) = chb a b c # ch as bs cs"
| "ch _ _ _ = []"

fun maj :: "word32 \<Rightarrow> word32 \<Rightarrow> word32 \<Rightarrow> word32" where
  "maj (a # as) (b # bs) (c # cs) = majb a b c # maj as bs cs"
| "maj _ _ _ = []"

text \<open>Ripple-carry addition; the carry out of bit 31 is dropped.\<close>

fun addc :: "bool \<Rightarrow> word32 \<Rightarrow> word32 \<Rightarrow> word32" where
  "addc c (a # as) (b # bs) = xor3b a b c # addc (majb a b c) as bs"
| "addc c _ _ = []"

definition add32 :: "word32 \<Rightarrow> word32 \<Rightarrow> word32" where
  "add32 a b = addc False a b"

definition rotr :: "nat \<Rightarrow> word32 \<Rightarrow> word32" where
  "rotr n x = drop n x @ take n x"

definition shr :: "nat \<Rightarrow> word32 \<Rightarrow> word32" where
  "shr n x = drop n x @ replicate n False"

definition hexbits :: "char \<Rightarrow> bool list" where
  "hexbits c = (
     if c = CHR ''0'' then [False, False, False, False] else
     if c = CHR ''1'' then [True, False, False, False] else
     if c = CHR ''2'' then [False, True, False, False] else
     if c = CHR ''3'' then [True, True, False, False] else
     if c = CHR ''4'' then [False, False, True, False] else
     if c = CHR ''5'' then [True, False, True, False] else
     if c = CHR ''6'' then [False, True, True, False] else
     if c = CHR ''7'' then [True, True, True, False] else
     if c = CHR ''8'' then [False, False, False, True] else
     if c = CHR ''9'' then [True, False, False, True] else
     if c = CHR ''a'' then [False, True, False, True] else
     if c = CHR ''b'' then [True, True, False, True] else
     if c = CHR ''c'' then [False, False, True, True] else
     if c = CHR ''d'' then [True, False, True, True] else
     if c = CHR ''e'' then [False, True, True, True] else [True, True, True, True])"

fun hexw :: "string \<Rightarrow> word32" where
  "hexw [] = []"
| "hexw (c # cs) = hexw cs @ hexbits c"

definition K256 :: "word32 list" where
  "K256 = map hexw [
   ''428a2f98'', ''71374491'', ''b5c0fbcf'', ''e9b5dba5'', ''3956c25b'', ''59f111f1'', ''923f82a4'', ''ab1c5ed5'',
   ''d807aa98'', ''12835b01'', ''243185be'', ''550c7dc3'', ''72be5d74'', ''80deb1fe'', ''9bdc06a7'', ''c19bf174'',
   ''e49b69c1'', ''efbe4786'', ''0fc19dc6'', ''240ca1cc'', ''2de92c6f'', ''4a7484aa'', ''5cb0a9dc'', ''76f988da'',
   ''983e5152'', ''a831c66d'', ''b00327c8'', ''bf597fc7'', ''c6e00bf3'', ''d5a79147'', ''06ca6351'', ''14292967'',
   ''27b70a85'', ''2e1b2138'', ''4d2c6dfc'', ''53380d13'', ''650a7354'', ''766a0abb'', ''81c2c92e'', ''92722c85'',
   ''a2bfe8a1'', ''a81a664b'', ''c24b8b70'', ''c76c51a3'', ''d192e819'', ''d6990624'', ''f40e3585'', ''106aa070'',
   ''19a4c116'', ''1e376c08'', ''2748774c'', ''34b0bcb5'', ''391c0cb3'', ''4ed8aa4a'', ''5b9cca4f'', ''682e6ff3'',
   ''748f82ee'', ''78a5636f'', ''84c87814'', ''8cc70208'', ''90befffa'', ''a4506ceb'', ''bef9a3f7'', ''c67178f2'']"

type_synonym sha_state =
  "word32 \<times> word32 \<times> word32 \<times> word32 \<times> word32 \<times> word32 \<times> word32 \<times> word32"

definition H0 :: sha_state where
  "H0 = (hexw ''6a09e667'', hexw ''bb67ae85'', hexw ''3c6ef372'', hexw ''a54ff53a'',
         hexw ''510e527f'', hexw ''9b05688c'', hexw ''1f83d9ab'', hexw ''5be0cd19'')"

definition ssig0 :: "word32 \<Rightarrow> word32" where
  "ssig0 x = xor3 (rotr 7 x) (rotr 18 x) (shr 3 x)"

definition ssig1 :: "word32 \<Rightarrow> word32" where
  "ssig1 x = xor3 (rotr 17 x) (rotr 19 x) (shr 10 x)"

definition bsig0 :: "word32 \<Rightarrow> word32" where
  "bsig0 x = xor3 (rotr 2 x) (rotr 13 x) (rotr 22 x)"

definition bsig1 :: "word32 \<Rightarrow> word32" where
  "bsig1 x = xor3 (rotr 6 x) (rotr 11 x) (rotr 25 x)"

definition round_out ::
  "word32 \<Rightarrow> word32 \<Rightarrow> word32 \<Rightarrow> word32 \<Rightarrow> word32 \<Rightarrow> word32 \<Rightarrow> word32 \<Rightarrow> word32 \<Rightarrow> word32 \<Rightarrow> sha_state" where
  "round_out t1 t2 a b c d e f g = (add32 t1 t2, a, b, c, add32 d t1, e, f, g)"

fun round1 :: "word32 \<Rightarrow> word32 \<Rightarrow> sha_state \<Rightarrow> sha_state" where
  "round1 k w0 (a, b, c, d, e, f, g, h) =
     round_out (add32 (add32 (add32 (add32 h (bsig1 e)) (ch e f g)) k) w0)
       (add32 (bsig0 a) (maj a b c)) a b c d e f g"

text \<open>The message schedule is kept as a window of the last sixteen words.\<close>

definition next_w :: "word32 list \<Rightarrow> word32" where
  "next_w w = add32 (add32 (add32 (ssig1 (w ! 14)) (w ! 9)) (ssig0 (w ! 1))) (w ! 0)"

fun rounds :: "word32 list \<Rightarrow> word32 list \<Rightarrow> sha_state \<Rightarrow> sha_state" where
  "rounds [] w s = s"
| "rounds (k # ks) w s = rounds ks (tl w @ [next_w w]) (round1 k (w ! 0) s)"

fun charbits :: "char \<Rightarrow> bool list" where
  "charbits (Char b0 b1 b2 b3 b4 b5 b6 b7) = [b0, b1, b2, b3, b4, b5, b6, b7]"

fun be32 :: "char list \<Rightarrow> word32 list" where
  "be32 (a # b # c # d # r) = (charbits d @ charbits c @ charbits b @ charbits a) # be32 r"
| "be32 _ = []"

fun add_st :: "sha_state \<Rightarrow> sha_state \<Rightarrow> sha_state" where
  "add_st (a, b, c, d, e, f, g, h) (a', b', c', d', e', f', g', h') =
     (add32 a a', add32 b b', add32 c c', add32 d d', add32 e e', add32 f f', add32 g g', add32 h h')"

definition compress :: "sha_state \<Rightarrow> char list \<Rightarrow> sha_state" where
  "compress s blk = add_st s (rounds K256 (be32 blk) s)"

function chunks :: "sha_state \<Rightarrow> char list \<Rightarrow> sha_state" where
  "chunks s m = (if length m < 64 then s else chunks (compress s (take 64 m)) (drop 64 m))"
  by pat_completeness auto
termination by (relation "measure (\<lambda>(s, m). length m)") auto

declare chunks.simps [simp del]

text \<open>The 64-bit length field counts the message bits: a binary counter of the bytes, times 8.\<close>

fun inc_bits :: "bool list \<Rightarrow> bool list" where
  "inc_bits [] = []"
| "inc_bits (False # bs) = True # bs"
| "inc_bits (True # bs) = False # inc_bits bs"

fun count_bytes :: "char list \<Rightarrow> bool list \<Rightarrow> bool list" where
  "count_bytes [] acc = acc"
| "count_bytes (c # cs) acc = count_bytes cs (inc_bits acc)"

fun bytes_le :: "bool list \<Rightarrow> char list" where
  "bytes_le (b0 # b1 # b2 # b3 # b4 # b5 # b6 # b7 # r) = Char b0 b1 b2 b3 b4 b5 b6 b7 # bytes_le r"
| "bytes_le _ = []"

definition length_field :: "char list \<Rightarrow> char list" where
  "length_field m = rev (bytes_le ([False, False, False] @ count_bytes m (replicate 61 False)))"

definition pad :: "char list \<Rightarrow> char list" where
  "pad m = m @ [CHR 0x80] @ replicate ((119 - length m mod 64) mod 64) (CHR 0x00) @ length_field m"

fun hexdigit :: "bool list \<Rightarrow> char" where
  "hexdigit [b0, b1, b2, b3] =
     (if b3 then (if b2 then (if b1 then (if b0 then CHR ''f'' else CHR ''e'') else (if b0 then CHR ''d'' else CHR ''c''))
                  else (if b1 then (if b0 then CHR ''b'' else CHR ''a'') else (if b0 then CHR ''9'' else CHR ''8'')))
      else (if b2 then (if b1 then (if b0 then CHR ''7'' else CHR ''6'') else (if b0 then CHR ''5'' else CHR ''4''))
                  else (if b1 then (if b0 then CHR ''3'' else CHR ''2'') else (if b0 then CHR ''1'' else CHR ''0''))))"
| "hexdigit _ = CHR ''?''"

fun hex32 :: "word32 \<Rightarrow> string" where
  "hex32 (b0 # b1 # b2 # b3 # w) = hex32 w @ [hexdigit [b0, b1, b2, b3]]"
| "hex32 _ = []"

fun hex_st :: "sha_state \<Rightarrow> string" where
  "hex_st (a, b, c, d, e, f, g, h) =
     hex32 a @ hex32 b @ hex32 c @ hex32 d @ hex32 e @ hex32 f @ hex32 g @ hex32 h"

definition sha256_hex :: "string \<Rightarrow> string" where
  "sha256_hex m = hex_st (chunks H0 (pad m))"

section \<open>The ledger: hashing\<close>

text \<open>
  \<open>calculate_hash(block)\<close>: the SHA-256 hex digest of
  \<open>json.dumps(block, sort_keys=True, indent=2).encode()\<close>. The dump is pure ASCII, so the
  encoding is the identity on it.
\<close>

definition calculate_hash :: "py \<Rightarrow> string" where
  "calculate_hash block = sha256_hex (dumps_sorted 0 block)"

section \<open>\<open>json.loads\<close>\<close>

text \<open>
  A recursive-descent reader of the float-free JSON texts, in the order the standard decoder
  works: whitespace is blank, tab, line feed and carriage return; a string may not hold a raw
  control character; a number is an optional minus sign and \<open>0\<close> or a digit sequence
  without a leading zero; repeated keys of an object keep the first position and the last
  value. \<open>None\<close> stands for the decoder raising. Number literals with a fraction or an
  exponent, \<open>NaN\<close>, \<open>Infinity\<close> and \<open>\u\<close> escapes above U+00FF denote values outside
  the embedding. The fuel bounds the recursion; the length of the text always suffices.
\<close>

definition is_ws :: "char \<Rightarrow> bool" where
  "is_ws c = (c = CHR '' '' \<or> c = CHR 0x09 \<or> c = CHR 0x0A \<or> c = CHR 0x0D)"

fun skip_ws :: "string \<Rightarrow> string" where
  "skip_ws [] = []"
| "skip_ws (c # cs) = (if is_ws c then skip_ws cs else c # cs)"

definition is_digit :: "char \<Rightarrow> bool" where
  "is_digit c = (48 \<le> (of_char c :: nat) \<and> (of_char c :: nat) \<le> 57)"

definition digit_val :: "char \<Rightarrow> nat" where
  "digit_val c = (of_char c :: nat) - 48"

fun digits_val :: "nat \<Rightarrow> string \<Rightarrow> nat" where
  "digits_val acc [] = acc"
| "digits_val acc (c # cs) = digits_val (10 * acc + digit_val c) cs"

text \<open>The integer part after the optional sign.\<close>

definition parse_nat :: "string \<Rightarrow> (nat \<times> string) option" where
  "parse_nat s =
     (case s of
        [] \<Rightarrow> None
      | c # cs \<Rightarrow>
          if c = CHR ''0'' then Some (0, cs)
          else if is_digit c then Some (digits_val 0 (takeWhile is_digit s), dropWhile is_digit s)
          else None)"

definition parse_number :: "string \<Rightarrow> (py \<times> string) option" where
  "parse_number s =
     (case s of
        [] \<Rightarrow> None
      | c # cs \<Rightarrow>
          if c = CHR ''-''
          then (case parse_nat cs of None \<Rightarrow> None | Some (n, r) \<Rightarrow> Some (PInt (- int n), r))
          else (case parse_nat s of None \<Rightarrow> None | Some (n, r) \<Rightarrow> Some (PInt (int n), r)))"

definition hex_val :: "char \<Rightarrow> nat option" where
  "hex_val c =
     (let n = (of_char c :: nat) in
      if 48 \<le> n \<and> n \<le> 57 then Some (n - 48)
      else if 97 \<le> n \<and> n \<le> 102 then Some (n - 87)
      else if 65 \<le> n \<and> n \<le> 70 then Some (n - 55)
      else None)"

text \<open>The four hexadecimal digits of a \<open>\u\<close> escape, for a code point below 256.\<close>

definition parse_u4 :: "string \<Rightarrow> (char \<times> string) option" where
  "parse_u4 s =
     (case s of
        a # b # c # d # r \<Rightarrow>
          (case (hex_val a, hex_val b, hex_val c, hex_val d) of
             (Some x, Some y, Some z, Some w) \<Rightarrow>
               if x = 0 \<and> y = 0 then Some (char_of (16 * z + w), r) else None
           | _ \<Rightarrow> None)
      | _ \<Rightarrow> None)"

definition unescape :: "char \<Rightarrow> char option" where
  "unescape e =
     (if e = CHR 0x22 then Some (CHR 0x22)
      else if e = CHR 0x5C then Some (CHR 0x5C)
      else if e = CHR ''/'' then Some (CHR ''/'')
      else if e = CHR ''b'' then Some (CHR 0x08)
      else if e = CHR ''f'' then Some (CHR 0x0C)
      else if e = CHR ''n'' then Some (CHR 0x0A)
      else if e = CHR ''r'' then Some (CHR 0x0D)
      else if e = CHR ''t'' then Some (CHR 0x09)
      else None)"

text \<open>The rest of a string after its opening quote.\<close>

function parse_string :: "string \<Rightarrow> (string \<times> string) option" where
  "parse_string [] = None"
| "parse_string (c # cs) =
     (if c = CHR 0x22 then Some ([], cs)
      else if c = CHR 0x5C then
        (case cs of
           [] \<Rightarrow> None
         | e # r \<Rightarrow>
             if e = CHR ''u'' then
               (case parse_u4 r of
                  None \<Rightarrow> None
                | Some (x, r') \<Rightarrow>
                    (case parse_string (drop 4 r) of
                       None \<Rightarrow> None
                     | Some (str, rest) \<Rightarrow> Some (x # str, rest)))
             else
               (case unescape e of
                  None \<Rightarrow> None
                | Some x \<Rightarrow>
                    (case parse_string r of
                       None \<Rightarrow> None
                     | Some (str, rest) \<Rightarrow> Some (x # str, rest))))
      else if (of_char c :: nat) < 32 then None
      else (case parse_string cs of
              None \<Rightarrow> None
            | Some (str, rest) \<Rightarrow> Some (c # str, rest)))"
  by pat_completeness auto
termination by (relation "measure length") auto

text \<open>\<open>dict(pairs)\<close>: a repeated key keeps its first position and takes the last value.\<close>

fun dict_of_pairs :: "(string \<times> py) list \<Rightarrow> (string \<times> py) list \<Rightarrow> (string \<times> py) list" where
  "dict_of_pairs acc [] = acc"
| "dict_of_pairs acc ((k, v) # kvs) = dict_of_pairs (dict_set acc k v) kvs"

fun parse_value :: "nat \<Rightarrow> string \<Rightarrow> (py \<times> string) option"
  and parse_elems :: "nat \<Rightarrow> string \<Rightarrow> (py list \<times> string) option"
  and parse_members :: "nat \<Rightarrow> string \<Rightarrow> ((string \<times> py) list \<times> string) option"
where
  "parse_value 0 s = None"
| "parse_value (Suc n) s =
     (case s of
        [] \<Rightarrow> None
      | c # cs \<Rightarrow>
          if c = CHR 0x22 then
            (case parse_string cs of None \<Rightarrow> None | Some (str, r) \<Rightarrow> Some (PStr str, r))
          else if c = CHR ''{'' then
            (case skip_ws cs of
               [] \<Rightarrow> None
             | d # r \<Rightarrow>
                 if d = CHR ''}'' then Some (PDict [], r)
                 else (case parse_members n (d # r) of
                         None \<Rightarrow> None
                       | Some (kvs, r') \<Rightarrow> Some (PDict (dict_of_pairs [] kvs), r')))
          else if c = CHR ''['' then
            (case skip_ws cs of
               [] \<Rightarrow> None
             | d # r \<Rightarrow>
                 if d = CHR '']'' then Some (PList [], r)
                 else (case parse_elems n (d # r) of
                         None \<Rightarrow> None
                       | Some (vs, r') \<Rightarrow> Some (PList vs, r')))
          else if take 4 s = ''null'' then Some (PNone, drop 4 s)
          else if take 4 s = ''true'' then Some (PBool True, drop 4 s)
          else if take 5 s = ''false'' then Some (PBool False, drop 5 s)
          else parse_number s)"
| "parse_elems 0 s = None"
| "parse_elems (Suc n) s =
     (case parse_value n s of
        None \<Rightarrow> None
      | Some (v, r) \<Rightarrow>
          (case skip_ws r of
             [] \<Rightarrow> None
           | d # r' \<Rightarrow>
               if d = CHR '']'' then Some ([v], r')
               else if d = CHR '','' then
                 (case parse_elems n (skip_ws r') of
                    None \<Rightarrow> None
                  | Some (vs, r'') \<Rightarrow> Some (v # vs, r''))
               else None))"
| "parse_members 0 s = None"
| "parse_members (Suc n) s =
     (case s of
        [] \<Rightarrow> None
      | q # cs \<Rightarrow>
          if q \<noteq> CHR 0x22 then None
          else (case parse_string cs of
                  None \<Rightarrow> None
                | Some (k, r) \<Rightarrow>
                    (case skip_ws r of
                       [] \<Rightarrow> None
                     | colon # r1 \<Rightarrow>
                         if colon \<noteq> CHR '':'' then None
                         else (case parse_value n (skip_ws r1) of
                                 None \<Rightarrow> None
                               | Some (v, r2) \<Rightarrow>
                                   (case skip_ws r2 of
                                      [] \<Rightarrow> None
                                    | d # r3 \<Rightarrow>
                                        if d = CHR ''}'' then Some ([(k, v)], r3)
                                        else if d = CHR '','' then
                                          (case parse_members n (skip_ws r3) of
                                             None \<Rightarrow> None
                                           | Some (kvs, r4) \<Rightarrow> Some ((k, v) # kvs, r4))
                                        else None)))))"

definition json_loads :: "string \<Rightarrow> py option" where
  "json_loads s =
     (case parse_value (Suc (length s)) (skip_ws s) of
        None \<Rightarrow> None
      | Some (v, r) \<Rightarrow> if skip_ws r = [] then Some v else None)"

section \<open>The block store\<close>

text \<open>
  Table \<open>blockchain_records\<close>: \<open>id INTEGER PRIMARY KEY AUTOINCREMENT\<close>, \<open>order_id
  INTEGER\<close>, and the \<open>TEXT\<close> columns \<open>previous_hash\<close>, \<open>current_hash\<close>,
  \<open>block_data\<close> and \<open>timestamp\<close> (default \<open>CURRENT_TIMESTAMP\<close>). A \<open>TEXT\<close> cell is
  \<open>NULL\<close> (\<open>None\<close>) or a text; the \<open>order_id\<close> cell holds the bound value as it was
  given (the conversion of a numeric text by the integer affinity of the column is left
  out). \<open>seq\<close> is the greatest id ever assigned, which \<open>AUTOINCREMENT\<close> never
  reuses.

  \<open>reachable\<close> tells whether \<open>get_db_connection()\<close> yields a connection:
  \<open>sqlite3.connect\<close> creates a missing file, so a connection does not mean that the
  table is there. On a connection, \<open>readable\<close> tells whether a \<open>SELECT\<close> on the
  table succeeds (it raises \<open>sqlite3.OperationalError\<close> when the table is missing) and
  \<open>writable\<close> whether the \<open>INSERT\<close> and its \<open>commit\<close> succeed (they raise
  when the table is missing or while another connection holds the write lock).
\<close>

record row =
  row_id :: int
  order_id :: py
  previous_hash :: "string option"
  current_hash :: "string option"
  block_data :: "string option"
  timestamp :: "string option"

record db =
  reachable :: bool
  readable :: bool
  writable :: bool
  rows :: "row list"
  seq :: int

datatype error =
  AttributeError | KeyError | TypeError | InterfaceError | OverflowError | OperationalError

text \<open>The Python value of a \<open>TEXT\<close> cell.\<close>

fun cell :: "string option \<Rightarrow> py" where
  "cell None = PNone"
| "cell (Some s) = PStr s"

text \<open>
  Binding a Python value as a statement parameter: \<open>None\<close>, integers of 64 bits and strings
  are accepted, a boolean is the integer 0 or 1, a list or a dictionary is refused.
\<close>

fun bind_param :: "py \<Rightarrow> error + py" where
  "bind_param PNone = Inr PNone"
| "bind_param (PBool b) = Inr (PInt (if b then 1 else 0))"
| "bind_param (PInt i) =
     (if - 9223372036854775808 \<le> i \<and> i \<le> 9223372036854775807 then Inr (PInt i)
      else Inl OverflowError)"
| "bind_param (PStr s) = Inr (PStr s)"
| "bind_param (PList xs) = Inl InterfaceError"
| "bind_param (PDict kvs) = Inl InterfaceError"

text \<open>What a \<open>TEXT\<close> column keeps of a bound value.\<close>

fun text_cell :: "py \<Rightarrow> string option" where
  "text_cell (PStr s) = Some s"
| "text_cell (PInt i) = Some (int_repr i)"
| "text_cell _ = None"

text \<open>\<open>SELECT * FROM blockchain_records ORDER BY id\<close>.\<close>

definition select_all :: "db \<Rightarrow> row list" where
  "select_all d = sort_key row_id (rows d)"

text \<open>\<open>... ORDER BY id DESC LIMIT 1\<close>: the row with the greatest id.\<close>

fun latest_row :: "row list \<Rightarrow> row option" where
  "latest_row [] = None"
| "latest_row (r # rs) =
     (case latest_row rs of
        None \<Rightarrow> Some r
      | Some m \<Rightarrow> if row_id m < row_id r then Some r else Some m)"

definition next_id :: "db \<Rightarrow> int" where
  "next_id d = fold max (map row_id (rows d)) (max 0 (seq d)) + 1"

definition insert_row :: "db \<Rightarrow> py \<Rightarrow> py \<Rightarrow> py \<Rightarrow> py \<Rightarrow> string \<Rightarrow> db" where
  "insert_row d oid prev cur data db_now =
     d\<lparr>rows := rows d @ [\<lparr>row_id = next_id d, order_id = oid, previous_hash = text_cell prev,
                           current_hash = text_cell cur, block_data = text_cell data,
                           timestamp = Some db_now\<rparr>],
       seq := next_id d\<rparr>"

section \<open>The ledger\<close>

text \<open>
  The controller's state is its in-memory \<open>chain\<close>; the store is shared. Two readings of the
  environment are parameters: \<open>now\<close>, the value of \<open>str(datetime.now())\<close>, and
  \<open>db_now\<close>, the value the store gives \<open>CURRENT_TIMESTAMP\<close>.
\<close>

record world =
  chain :: "py list"
  store :: db

definition zeros64 :: string where
  "zeros64 = replicate 64 CHR ''0''"

fun dict_lookup :: "(string \<times> py) list \<Rightarrow> string \<Rightarrow> error + py" where
  "dict_lookup [] k = Inl KeyError"
| "dict_lookup ((k', v) # kvs) k = (if k' = k then Inr v else dict_lookup kvs k)"

definition genesis_block :: "string \<Rightarrow> py" where
  "genesis_block now =
     (let g = [(''index'', PInt 0),
               (''timestamp'', PStr now),
               (''data'', PDict [(''message'', PStr ''Genesis Block - The Villain Food-App Blockchain''),
                                 (''order_id'', PInt 0)]),
               (''previous_hash'', PStr zeros64),
               (''nonce'', PInt 0)]
      in PDict (dict_set g ''hash'' (PStr (calculate_hash (PDict g)))))"

definition create_genesis_block :: "string \<Rightarrow> world \<Rightarrow> world" where
  "create_genesis_block now w = w\<lparr>chain := chain w @ [genesis_block now]\<rparr>"

text \<open>\<open>VillainBlockchain()\<close> over a given store.\<close>

definition init :: "string \<Rightarrow> db \<Rightarrow> world" where
  "init now d = create_genesis_block now \<lparr>chain = [], store = d\<rparr>"

text \<open>
  \<open>get_latest_block\<close>: \<open>None\<close> without a connection; the \<open>SELECT\<close> is in no
  \<open>try\<close> of its own.
\<close>

definition get_latest_block :: "db \<Rightarrow> error + row option" where
  "get_latest_block d =
     (if reachable d
      then (if readable d then Inr (latest_row (rows d)) else Inl OperationalError)
      else Inr None)"

text \<open>\<open>s[:n]\<close> and \<open>'0' * n\<close> for any integer \<open>n\<close>.\<close>

definition slice_to :: "string \<Rightarrow> int \<Rightarrow> string" where
  "slice_to s n = (if n < 0 then take (nat (int (length s) + n)) s else take (nat n) s)"

definition zero_prefix :: "int \<Rightarrow> string" where
  "zero_prefix n = replicate (nat n) CHR ''0''"

text \<open>\<open>block_copy['nonce'] += 1\<close>.\<close>

fun incr_nonce :: "py \<Rightarrow> error + py" where
  "incr_nonce (PDict kvs) =
     (case dict_lookup kvs ''nonce'' of
        Inl e \<Rightarrow> Inl e
      | Inr (PInt n) \<Rightarrow> Inr (PDict (dict_set kvs ''nonce'' (PInt (n + 1))))
      | Inr (PBool b) \<Rightarrow> Inr (PDict (dict_set kvs ''nonce'' (PInt ((if b then 1 else 0) + 1))))
      | Inr _ \<Rightarrow> Inl TypeError)"
| "incr_nonce _ = Inl TypeError"

text \<open>
  The search loop of \<open>mine_block\<close>. It has no bound in the source; a search that never
  finds a hash is the value \<open>None\<close>.
\<close>

partial_function (option) mine_loop :: "py \<Rightarrow> int \<Rightarrow> (error + string) option" where
  "mine_loop block_copy difficulty =
     (if slice_to (calculate_hash block_copy) difficulty = zero_prefix difficulty
      then Some (Inr (calculate_hash block_copy))
      else (case incr_nonce block_copy of
              Inl e \<Rightarrow> Some (Inl e)
            | Inr b \<Rightarrow> mine_loop b difficulty))"

text \<open>\<open>block.copy()\<close> exists for dictionaries and lists only.\<close>

fun mine_block :: "py \<Rightarrow> int \<Rightarrow> (error + string) option" where
  "mine_block (PDict kvs) difficulty = mine_loop (PDict kvs) difficulty"
| "mine_block (PList xs) difficulty = mine_loop (PList xs) difficulty"
| "mine_block _ difficulty = Some (Inl AttributeError)"

text \<open>\<open>block['data'].get('order_id', 0)\<close>.\<close>

fun get_order_id :: "py \<Rightarrow> error + py" where
  "get_order_id (PDict d) = Inr (dict_get d ''order_id'' (PInt 0))"
| "get_order_id _ = Inl AttributeError"

text \<open>
  \<open>store_block_in_db\<close>: \<open>False\<close> without a connection, otherwise one inserted row and
  \<open>True\<close>; an exception, of the lookups, of the binding or of the statement, leaves the
  store as it was.
\<close>

definition store_block_in_db :: "string \<Rightarrow> (string \<times> py) list \<Rightarrow> db \<Rightarrow> error + (bool \<times> db)" where
  "store_block_in_db db_now block d =
     (if reachable d then
        (case dict_lookup block ''data'' of
           Inl e \<Rightarrow> Inl e
         | Inr data \<Rightarrow>
        (case get_order_id data of
           Inl e \<Rightarrow> Inl e
         | Inr oid \<Rightarrow>
        (case dict_lookup block ''previous_hash'' of
           Inl e \<Rightarrow> Inl e
         | Inr prev \<Rightarrow>
        (case dict_lookup block ''hash'' of
           Inl e \<Rightarrow> Inl e
         | Inr cur \<Rightarrow>
        (case bind_param oid of
           Inl e \<Rightarrow> Inl e
         | Inr oid' \<Rightarrow>
        (case bind_param prev of
           Inl e \<Rightarrow> Inl e
         | Inr prev' \<Rightarrow>
        (case bind_param cur of
           Inl e \<Rightarrow> Inl e
         | Inr cur' \<Rightarrow>
             if writable d
             then Inr (True, insert_row d oid' prev' cur' (PStr (json_dumps data)) db_now)
             else Inl OperationalError)))))))
      else Inr (False, d))"

text \<open>The block built from the latest row, if there is one.\<close>

definition new_block :: "string \<Rightarrow> row option \<Rightarrow> py \<Rightarrow> (string \<times> py) list" where
  "new_block now latest_block order_data =
     [(''index'', PInt (case latest_block of Some latest \<Rightarrow> row_id latest + 1 | None \<Rightarrow> 1)),
      (''timestamp'', PStr now),
      (''data'', order_data),
      (''previous_hash'',
         (case latest_block of Some latest \<Rightarrow> cell (current_hash latest) | None \<Rightarrow> PStr zeros64)),
      (''nonce'', PInt 0)]"

text \<open>
  \<open>add_order_to_blockchain\<close>: the result is the returned value (\<open>None\<close>, here
  \<open>PNone\<close>, after an exception, which leaves the ledger as it was) with the new state, or
  nothing when the mining loop does not end. The return value of \<open>store_block_in_db\<close>
  is not looked at.
\<close>

definition add_order_to_blockchain :: "string \<Rightarrow> string \<Rightarrow> py \<Rightarrow> world \<Rightarrow> (py \<times> world) option" where
  "add_order_to_blockchain now db_now order_data w =
     (case get_latest_block (store w) of
        Inl e \<Rightarrow> Some (PNone, w)
      | Inr latest_block \<Rightarrow>
     (case mine_block (PDict (new_block now latest_block order_data)) 2 of
        None \<Rightarrow> None
      | Some (Inl e) \<Rightarrow> Some (PNone, w)
      | Some (Inr h) \<Rightarrow>
          (case store_block_in_db db_now
                  (dict_set (new_block now latest_block order_data) ''hash'' (PStr h)) (store w) of
             Inl e \<Rightarrow> Some (PNone, w)
           | Inr (stored, d') \<Rightarrow>
               Some (PDict (dict_set (new_block now latest_block order_data) ''hash'' (PStr h)),
                     \<lparr>chain = chain w @ [PDict (dict_set (new_block now latest_block order_data) ''hash'' (PStr h))],
                      store = d'\<rparr>))))"

subsection \<open>Verification\<close>

datatype status = VALID | TAMPERED

datatype issue =
    PreviousHashMismatch "string option" "string option"
  | HashMismatch string "string option"
  | ParsingError

record block_status =
  block_id :: int
  status_order_id :: py
  status :: status
  issues :: "issue list"

text \<open>The link check against the running expected hash.\<close>

definition link_issues :: "string option \<Rightarrow> row \<Rightarrow> issue list" where
  "link_issues expected block =
     (if previous_hash block \<noteq> expected
      then [PreviousHashMismatch expected (previous_hash block)] else [])"

text \<open>\<open>block.get('timestamp', '')\<close> made a string.\<close>

fun timestamp_str :: "string option \<Rightarrow> string" where
  "timestamp_str (Some s) = s"
| "timestamp_str None = ''None''"

definition test_block :: "row \<Rightarrow> py \<Rightarrow> py" where
  "test_block block data =
     PDict [(''index'', PInt (row_id block)),
            (''timestamp'', PStr (timestamp_str (timestamp block))),
            (''data'', data),
            (''previous_hash'', cell (previous_hash block)),
            (''nonce'', PInt 0)]"

text \<open>The body of the \<open>try\<close>: any exception of \<open>json.loads\<close> is a parsing issue.\<close>

definition hash_issues :: "row \<Rightarrow> issue list" where
  "hash_issues block =
     (case block_data block of
        None \<Rightarrow> [ParsingError]
      | Some text \<Rightarrow>
          (case json_loads text of
             None \<Rightarrow> [ParsingError]
           | Some data \<Rightarrow>
               if Some (calculate_hash (test_block block data)) \<noteq> current_hash block
               then [HashMismatch (calculate_hash (test_block block data)) (current_hash block)]
               else []))"

definition check_block :: "string option \<Rightarrow> row \<Rightarrow> block_status" where
  "check_block expected block =
     \<lparr>block_id = row_id block,
      status_order_id = order_id block,
      status = (if link_issues expected block @ hash_issues block = [] then VALID else TAMPERED),
      issues = link_issues expected block @ hash_issues block\<rparr>"

fun scan :: "string option \<Rightarrow> row list \<Rightarrow> block_status list" where
  "scan expected [] = []"
| "scan expected (block # blocks) = check_block expected block # scan (current_hash block) blocks"

text \<open>The report over the rows that the \<open>SELECT\<close> fetched.\<close>

definition integrity_report :: "db \<Rightarrow> block_status list" where
  "integrity_report d = scan (Some zeros64) (select_all d)"

definition tampered_blocks :: "db \<Rightarrow> block_status list" where
  "tampered_blocks d = filter (\<lambda>b. status b = TAMPERED) (integrity_report d)"

text \<open>
  \<open>verify_blockchain_integrity\<close>: the \<open>SELECT\<close> and the \<open>fetchall\<close> are outside
  any \<open>try\<close>, so their exception leaves the function.
\<close>

definition verify_blockchain_integrity :: "db \<Rightarrow> error + bool \<times> string" where
  "verify_blockchain_integrity d =
     (if \<not> reachable d then Inr (False, ''Database connection failed'')
      else if \<not> readable d then Inl OperationalError
      else if tampered_blocks d \<noteq> []
      then Inr (False, ''Blockchain integrity compromised. '' @ nat_repr (length (tampered_blocks d))
                        @ '' blocks tampered.'')
      else Inr (True, ''Blockchain integrity verified successfully.''))"

section \<open>Relations and operations used in the statements\<close>

text \<open>
  Equal content of two values: Python's equality of lists and dictionaries (the same keys
  with equal values, whatever the insertion order), with integers and booleans kept apart.
  The keys of a dictionary are distinct.
\<close>

fun same_content :: "py \<Rightarrow> py \<Rightarrow> bool" where
  "same_content (PList xs) (PList ys) = list_all2 same_content xs ys"
| "same_content (PDict kvs) (PDict kvs') =
     (distinct (map fst kvs) \<and> distinct (map fst kvs') \<and> length kvs = length kvs' \<and>
      (\<forall>(k, v) \<in> set kvs. case map_of kvs' k of None \<Rightarrow> False | Some v' \<Rightarrow> same_content v v'))"
| "same_content a b = (a = b)"

text \<open>
  A mutation of the store from outside the ledger:
  \<open>UPDATE blockchain_records SET block_data = ?, timestamp = ? WHERE id = ?\<close>.
\<close>

definition mutate_row :: "int \<Rightarrow> string option \<Rightarrow> string option \<Rightarrow> db \<Rightarrow> db" where
  "mutate_row i data ts d =
     d\<lparr>rows := map (\<lambda>r. if row_id r = i then r\<lparr>block_data := data, timestamp := ts\<rparr> else r) (rows d)\<rparr>"

text \<open>The issues of a report entry that come from the previous-hash link check.\<close>

fun is_link_issue :: "issue \<Rightarrow> bool" where
  "is_link_issue (PreviousHashMismatch e g) = True"
| "is_link_issue _ = False"

definition link_part :: "block_status \<Rightarrow> issue list" where
  "link_part b = filter is_link_issue (issues b)"

section \<open>Reference runs\<close>

text \<open>
  Two orders appended to an empty store. The clock readings are those of a run:
  \<open>str(datetime.now())\<close> carries microseconds, \<open>CURRENT_TIMESTAMP\<close> is the UTC time
  to the second. For order A the search ends at nonce 1, for order B at nonce 0.
\<close>

definition now_0 :: string where "now_0 = ''2024-03-01 11:00:00.000007''"
definition now_A :: string where "now_A = ''2024-03-01 12:00:00.000061''"
definition db_now_A :: string where "db_now_A = ''2024-03-01 10:00:00''"
definition now_B :: string where "now_B = ''2024-03-01 12:05:00.000189''"
definition db_now_B :: string where "db_now_B = ''2024-03-01 10:05:00''"

definition order_A :: py where
  "order_A = PDict [(''order_id'', PInt 1), (''total'', PInt 25)]"

definition order_B :: py where
  "order_B = PDict [(''customer'', PStr ''bob'')]"

definition hash_A :: string where
  "hash_A = ''002446ce30e567e72d538243cfb8998a6347eecd9e2f180ca869873a9127d32e''"

definition hash_B :: string where
  "hash_B = ''008b60f32d3654826d685ae27c14c6cc692b1b3723157c451e1118c95b5379fc''"

definition block_A :: "int \<Rightarrow> (string \<times> py) list" where
  "block_A n = [(''index'', PInt 1), (''timestamp'', PStr now_A), (''data'', order_A),
                (''previous_hash'', PStr zeros64), (''nonce'', PInt n)]"

definition block_B :: "int \<Rightarrow> (string \<times> py) list" where
  "block_B n = [(''index'', PInt 2), (''timestamp'', PStr now_B), (''data'', order_B),
                (''previous_hash'', PStr hash_A), (''nonce'', PInt n)]"

text \<open>
  The blocks \<open>add_order_to_blockchain\<close> returns for the two orders: the block as it was
  built, its nonce 0, with the mined hash added.
\<close>

definition mined_A :: py where
  "mined_A = PDict (block_A 0 @ [(''hash'', PStr hash_A)])"

definition mined_B :: py where
  "mined_B = PDict (block_B 0 @ [(''hash'', PStr hash_B)])"

text \<open>Block A with its fields and the fields of its payload in another insertion order.\<close>

definition block_A_permuted :: "(string \<times> py) list" where
  "block_A_permuted =
     [(''nonce'', PInt 0), (''data'', PDict [(''total'', PInt 25), (''order_id'', PInt 1)]),
      (''previous_hash'', PStr zeros64), (''index'', PInt 1), (''timestamp'', PStr now_A)]"

definition empty_store :: db where
  "empty_store = \<lparr>reachable = True, readable = True, writable = True, rows = [], seq = 0\<rparr>"

text \<open>No connection can be obtained.\<close>

definition offline_store :: db where
  "offline_store = \<lparr>reachable = False, readable = False, writable = False, rows = [], seq = 0\<rparr>"

text \<open>
  A database file without the table \<open>blockchain_records\<close>, as \<open>sqlite3.connect\<close>
  leaves it when it had to create the file: the connection is obtained, every statement on
  the table raises.
\<close>

definition tableless_store :: db where
  "tableless_store = \<lparr>reachable = True, readable = False, writable = False, rows = [], seq = 0\<rparr>"

text \<open>An empty table while another connection holds the write lock.\<close>

definition locked_store :: db where
  "locked_store = \<lparr>reachable = True, readable = True, writable = False, rows = [], seq = 0\<rparr>"

definition row_A :: row where
  "row_A = \<lparr>row_id = 1, order_id = PInt 1, previous_hash = Some zeros64, current_hash = Some hash_A,
            block_data = Some (json_dumps order_A), timestamp = Some db_now_A\<rparr>"

definition row_B :: row where
  "row_B = \<lparr>row_id = 2, order_id = PInt 0, previous_hash = Some hash_A, current_hash = Some hash_B,
            block_data = Some (json_dumps order_B), timestamp = Some db_now_B\<rparr>"

definition store_A :: db where
  "store_A = \<lparr>reachable = True, readable = True, writable = True, rows = [row_A], seq = 1\<rparr>"

definition store_AB :: db where
  "store_AB = \<lparr>reachable = True, readable = True, writable = True, rows = [row_A, row_B], seq = 2\<rparr>"

text \<open>The states of the ledger after the first and after the second order.\<close>

definition world_A :: world where
  "world_A = \<lparr>chain = [genesis_block now_0, mined_A], store = store_A\<rparr>"

definition world_AB :: world where
  "world_AB = \<lparr>chain = [genesis_block now_0, mined_A, mined_B], store = store_AB\<rparr>"

text \<open>The payload of row A with another total, and the row after that mutation.\<close>

definition order_A_forged :: py where
  "order_A_forged = PDict [(''order_id'', PInt 1), (''total'', PInt 99)]"

definition row_A_forged :: row where
  "row_A_forged = \<lparr>row_id = 1, order_id = PInt 1, previous_hash = Some zeros64,
                   current_hash = Some hash_A, block_data = Some (json_dumps order_A_forged),
                   timestamp = Some db_now_A\<rparr>"

section \<open>Properties\<close>

subsection \<open>Auxiliary facts\<close>

lemma fst_notin_image:
  assumes "a \<notin> fst ` S" and "x \<in> S"
  shows "fst x \<noteq> a"
proof
  assume "fst x = a"
  then have "a = fst x" by (rule sym)
  then have "a \<in> fst ` S" using assms(2) by (rule image_eqI)
  with assms(1) show False by simp
qed

lemma filter_key_distinct:
  "distinct (map fst zs) \<Longrightarrow> k \<in> set zs \<Longrightarrow> filter (\<lambda>x. fst k = fst x) zs = [k]"
proof (induction zs)
  case Nil
  then show ?case by simp
next
  case (Cons z zs)
  show ?case
  proof (cases "k = z")
    case True
    from Cons.prems have "fst z \<notin> fst ` set zs" by simp
    then have "\<forall>x \<in> set zs. fst x \<noteq> fst z" by (simp add: fst_notin_image)
    then have "filter (\<lambda>x. fst z = fst x) zs = []" by (auto simp: filter_empty_conv)
    with True show ?thesis by simp
  next
    case False
    with Cons.prems have k: "k \<in> set zs" and d: "distinct (map fst zs)" by auto
    from Cons.prems have "fst z \<notin> fst ` set zs" by simp
    then have "fst k \<noteq> fst z" using k by (rule fst_notin_image)
    with Cons.IH [OF d k] show ?thesis by simp
  qed
qed

lemma sort_key_fst_perm:
  assumes "distinct (map fst xs)" and "mset xs = mset ys"
  shows "sort_key fst xs = sort_key fst ys"
proof (rule properties_for_sort_key)
  show "mset (sort_key fst ys) = mset xs" using assms by simp
  show "sorted (map fst (sort_key fst ys))" by simp
  fix k assume k: "k \<in> set (sort_key fst ys)"
  from assms(2) have "mset (map fst xs) = mset (map fst ys)" by simp
  from mset_eq_imp_distinct_iff [OF this] assms(1) have dy: "distinct (map fst ys)" by simp
  have "mset (map fst (sort_key fst ys)) = mset (map fst ys)" by simp
  from mset_eq_imp_distinct_iff [OF this] dy have ds: "distinct (map fst (sort_key fst ys))"
    by simp
  from assms(2) have "set xs = set ys" by (rule mset_eq_setD)
  with k have kx: "k \<in> set xs" by simp
  show "filter (\<lambda>x. fst k = fst x) (sort_key fst ys) = filter (\<lambda>x. fst k = fst x) xs"
    using filter_key_distinct [OF ds k] filter_key_distinct [OF assms(1) kx] by simp
qed

lemma list_all2_map_eq:
  "list_all2 P xs ys \<Longrightarrow> (\<And>x y. x \<in> set xs \<Longrightarrow> y \<in> set ys \<Longrightarrow> P x y \<Longrightarrow> f x = f y) \<Longrightarrow> map f xs = map f ys"
  by (induction xs ys rule: list_all2_induct) auto

lemma rendered_items_perm:
  assumes d: "distinct (map fst kvs)" and d': "distinct (map fst kvs')"
    and len: "length kvs = length kvs'"
    and rel: "\<And>k v. (k, v) \<in> set kvs \<Longrightarrow> \<exists>v'. map_of kvs' k = Some v' \<and> f v = f v'"
  shows "mset (map (\<lambda>(k, v). (k, f v)) kvs) = mset (map (\<lambda>(k, v). (k, f v)) kvs')"
proof -
  let ?R = "map (\<lambda>(k, v). (k, f v)) kvs" and ?R' = "map (\<lambda>(k, v). (k, f v)) kvs'"
  have fst_R: "map fst ?R = map fst kvs" and fst_R': "map fst ?R' = map fst kvs'"
    by (simp_all add: case_prod_unfold comp_def)
  have "distinct (map fst ?R)" using d by (simp only: fst_R)
  then have dR: "distinct ?R" by (rule distinct_map [THEN iffD1, THEN conjunct1])
  have "distinct (map fst ?R')" using d' by (simp only: fst_R')
  then have dR': "distinct ?R'" by (rule distinct_map [THEN iffD1, THEN conjunct1])
  have sub: "set ?R \<subseteq> set ?R'"
  proof
    fix x assume "x \<in> set ?R"
    then obtain k v where kv: "(k, v) \<in> set kvs" and x: "x = (k, f v)" by auto
    from rel [OF kv] obtain v' where m: "map_of kvs' k = Some v'" and e: "f v = f v'" by blast
    from m have "(k, v') \<in> set kvs'" by (rule map_of_SomeD)
    then have "(k, f v') \<in> set ?R'" by force
    with x e show "x \<in> set ?R'" by simp
  qed
  have "card (set ?R) = length kvs" using distinct_card [OF dR] by simp
  moreover have "card (set ?R') = length kvs'" using distinct_card [OF dR'] by simp
  ultimately have seteq: "set ?R = set ?R'" using sub len by (simp add: card_subset_eq)
  from set_eq_iff_mset_eq_distinct [OF dR dR'] seteq show ?thesis by (rule iffD1)
qed

lemma dumps_sorted_same_content:
  "same_content a b \<Longrightarrow> dumps_sorted level a = dumps_sorted level b"
proof (induction a b arbitrary: level rule: same_content.induct)
  case (1 xs ys)
  from "1.prems" have rel: "list_all2 same_content xs ys" by simp
  then have len: "length xs = length ys" by (rule list_all2_lengthD)
  have m: "map (dumps_sorted (Suc level)) xs = map (dumps_sorted (Suc level)) ys"
    using rel "1.IH" by (rule list_all2_map_eq)
  from len have e: "(xs = []) = (ys = [])" by (cases xs; cases ys) simp_all
  show ?case by (simp only: dumps_sorted.simps m e)
next
  case (2 kvs kvs')
  from "2.prems" have d: "distinct (map fst kvs)" and d': "distinct (map fst kvs')"
    and len: "length kvs = length kvs'"
    and rel: "\<forall>(k, v) \<in> set kvs. case map_of kvs' k of None \<Rightarrow> False | Some v' \<Rightarrow> same_content v v'"
    by simp_all
  have step: "\<exists>v'. map_of kvs' k = Some v' \<and> dumps_sorted (Suc level) v = dumps_sorted (Suc level) v'"
    if kv: "(k, v) \<in> set kvs" for k v
  proof -
    from rel kv obtain v' where m: "map_of kvs' k = Some v'" and sc: "same_content v v'"
      by (auto split: option.splits)
    from "2.IH" [OF kv _ m sc] show ?thesis using m by blast
  qed
  have "mset (map (\<lambda>(k, v). (k, dumps_sorted (Suc level) v)) kvs)
      = mset (map (\<lambda>(k, v). (k, dumps_sorted (Suc level) v)) kvs')"
    using d d' len step by (rule rendered_items_perm)
  moreover have "distinct (map fst (map (\<lambda>(k, v). (k, dumps_sorted (Suc level) v)) kvs))"
    using d by (simp add: case_prod_unfold comp_def)
  ultimately have s: "sort_key fst (map (\<lambda>(k, v). (k, dumps_sorted (Suc level) v)) kvs)
      = sort_key fst (map (\<lambda>(k, v). (k, dumps_sorted (Suc level) v)) kvs')"
    by (rule sort_key_fst_perm [rotated])
  from len have e: "(kvs = []) = (kvs' = [])" by (cases kvs; cases kvs') simp_all
  show ?case by (simp only: dumps_sorted.simps s e)
qed simp_all

lemma dict_lookup_set_same: "dict_lookup (dict_set kvs k v) k = Inr v"
  by (induction kvs) auto

lemma dict_lookup_set_other: "k' \<noteq> k \<Longrightarrow> dict_lookup (dict_set kvs k v) k' = dict_lookup kvs k'"
  by (induction kvs) auto

lemma dict_get_absent: "k \<notin> fst ` set kvs \<Longrightarrow> dict_get kvs k dflt = dflt"
  by (induction kvs) auto

lemma bind_cell: "bind_param (cell x) = Inr (cell x)"
  by (cases x) simp_all

lemma mine_loop_prefix:
  assumes "mine_loop b d = Some y"
  shows "\<forall>h. y = Inr h \<longrightarrow> slice_to h d = zero_prefix d"
  apply (rule mine_loop.raw_induct
      [where P = "\<lambda>b d y. \<forall>h. y = Inr h \<longrightarrow> slice_to h d = zero_prefix d", OF _ assms])
  apply (auto split: if_splits sum.splits)
  done

lemma mine_loop_no_error:
  assumes "mine_loop b d = Some y"
  shows "\<forall>kvs n. b = PDict kvs \<longrightarrow> dict_lookup kvs ''nonce'' = Inr (PInt n) \<longrightarrow> (\<exists>h. y = Inr h)"
  apply (rule mine_loop.raw_induct
      [where P = "\<lambda>b d y. \<forall>kvs n. b = PDict kvs \<longrightarrow> dict_lookup kvs ''nonce'' = Inr (PInt n)
                      \<longrightarrow> (\<exists>h. y = Inr h)", OF _ assms])
  apply (auto split: if_splits sum.splits simp: dict_lookup_set_same)
  done

lemma fold_max_ge_init: "(a::int) \<le> fold max xs a"
proof (induction xs arbitrary: a)
  case Nil
  show ?case by simp
next
  case (Cons x xs)
  have "a \<le> max x a" by simp
  also have "max x a \<le> fold max xs (max x a)" by (rule Cons.IH)
  finally show ?case by simp
qed

lemma fold_max_ge_elem: "(y::int) \<in> set xs \<Longrightarrow> y \<le> fold max xs a"
proof (induction xs arbitrary: a)
  case Nil
  then show ?case by simp
next
  case (Cons x xs)
  show ?case
  proof (cases "y = x")
    case True
    have "y \<le> max x a" using True by simp
    also have "max x a \<le> fold max xs (max x a)" by (rule fold_max_ge_init)
    finally show ?thesis by simp
  next
    case False
    with Cons.prems have "y \<in> set xs" by simp
    from Cons.IH [OF this] show ?thesis by simp
  qed
qed

lemma next_id_gt: "x \<in> set (rows d) \<Longrightarrow> row_id x < next_id d"
proof -
  assume "x \<in> set (rows d)"
  then have "row_id x \<in> set (map row_id (rows d))" by simp
  from fold_max_ge_elem [OF this] show ?thesis by (simp add: next_id_def)
qed

lemma latest_row_append:
  "\<forall>x \<in> set rs. row_id x < row_id r \<Longrightarrow> latest_row (rs @ [r]) = Some r"
  by (induction rs) auto

lemma add_order_block:
  assumes "add_order_to_blockchain now db_now order_data w = Some (PDict b, w')"
  shows "\<exists>latest h stored. get_latest_block (store w) = Inr latest
            \<and> mine_block (PDict (new_block now latest order_data)) 2 = Some (Inr h)
            \<and> b = dict_set (new_block now latest order_data) ''hash'' (PStr h)
            \<and> store_block_in_db db_now b (store w) = Inr (stored, store w')
            \<and> chain w' = chain w @ [PDict b]"
  using assms unfolding add_order_to_blockchain_def
  by (auto split: option.splits sum.splits prod.splits)

lemma new_block_lookups:
  "dict_lookup (new_block now latest order_data) ''data'' = Inr order_data"
  "dict_lookup (new_block now latest order_data) ''nonce'' = Inr (PInt 0)"
  "dict_lookup (new_block now latest order_data) ''index''
     = Inr (PInt (case latest of Some l \<Rightarrow> row_id l + 1 | None \<Rightarrow> 1))"
  "dict_lookup (new_block now latest order_data) ''previous_hash''
     = Inr (case latest of Some l \<Rightarrow> cell (current_hash l) | None \<Rightarrow> PStr zeros64)"
  by (simp_all add: new_block_def)

lemma new_block_prev_cell:
  "\<exists>c. dict_lookup (new_block now latest order_data) ''previous_hash'' = Inr (cell c)"
proof (cases latest)
  case None
  then have "dict_lookup (new_block now latest order_data) ''previous_hash'' = Inr (cell (Some zeros64))"
    by (simp add: new_block_lookups)
  then show ?thesis ..
next
  case (Some l)
  then have "dict_lookup (new_block now latest order_data) ''previous_hash'' = Inr (cell (current_hash l))"
    by (simp add: new_block_lookups)
  then show ?thesis ..
qed

lemma store_block_reachable:
  assumes "reachable d"
    and "store_block_in_db db_now (dict_set (new_block now latest order_data) ''hash'' (PStr h)) d = Inr (stored, d')"
  shows "\<exists>oid oid'. get_order_id order_data = Inr oid \<and> bind_param oid = Inr oid'
           \<and> rows d' = rows d @ [\<lparr>row_id = next_id d, order_id = oid',
                 previous_hash = text_cell (case latest of
                                              Some l \<Rightarrow> cell (current_hash l)
                                            | None \<Rightarrow> PStr zeros64),
                 current_hash = Some h, block_data = Some (json_dumps order_data),
                 timestamp = Some db_now\<rparr>]
           \<and> reachable d' \<and> readable d' = readable d \<and> writable d \<and> stored"
  using assms unfolding store_block_in_db_def
  by (auto simp: dict_lookup_set_same dict_lookup_set_other new_block_lookups insert_row_def bind_cell
      split: sum.splits option.splits if_splits)

lemma get_latest_block_reachable:
  "reachable d \<Longrightarrow> get_latest_block d = Inr latest \<Longrightarrow> readable d \<and> latest = latest_row (rows d)"
  by (auto simp: get_latest_block_def split: if_splits)

lemma dict_set_twice: "dict_set (dict_set kvs k v) k v' = dict_set kvs k v'"
  by (induction kvs) auto

text \<open>The search ends when some nonce from the current one on gives a hash with the prefix.\<close>

lemma mine_loop_finds:
  assumes "slice_to (calculate_hash (PDict (dict_set kvs ''nonce'' (PInt (j + int k))))) d
             = zero_prefix d"
  shows "\<exists>h. mine_loop (PDict (dict_set kvs ''nonce'' (PInt j))) d = Some (Inr h)"
  using assms
proof (induction k arbitrary: j)
  case 0
  then show ?case by (subst mine_loop.simps) simp
next
  case (Suc k)
  show ?case
  proof (cases "slice_to (calculate_hash (PDict (dict_set kvs ''nonce'' (PInt j)))) d = zero_prefix d")
    case True
    then show ?thesis by (subst mine_loop.simps) simp
  next
    case False
    have i: "incr_nonce (PDict (dict_set kvs ''nonce'' (PInt j)))
               = Inr (PDict (dict_set kvs ''nonce'' (PInt (j + 1))))"
      by (simp add: dict_lookup_set_same dict_set_twice)
    have e: "j + int (Suc k) = j + 1 + int k" by simp
    from Suc.prems have "slice_to (calculate_hash (PDict (dict_set kvs ''nonce'' (PInt (j + 1 + int k))))) d
             = zero_prefix d"
      by (simp only: e)
    from Suc.IH [OF this] obtain h
      where "mine_loop (PDict (dict_set kvs ''nonce'' (PInt (j + 1)))) d = Some (Inr h)" ..
    with False i have "mine_loop (PDict (dict_set kvs ''nonce'' (PInt j))) d = Some (Inr h)"
      by (subst mine_loop.simps) (simp del: incr_nonce.simps)
    then show ?thesis ..
  qed
qed

lemma new_block_nonce_0:
  "dict_set (new_block now latest order_data) ''nonce'' (PInt 0) = new_block now latest order_data"
  by (simp add: new_block_def)

lemma mine_block_prefix:
  assumes "mine_block block difficulty = Some (Inr h)"
  shows "slice_to h difficulty = zero_prefix difficulty"
proof -
  from assms have "mine_loop block difficulty = Some (Inr h)"
    by (cases block) simp_all
  from mine_loop_prefix [OF this] show ?thesis by simp
qed

lemma scan_ids: "map block_id (scan e xs) = map row_id xs"
  by (induction xs arbitrary: e) (simp_all add: check_block_def)

lemma scan_mem: "r \<in> set xs \<Longrightarrow> \<exists>e'. check_block e' r \<in> set (scan e xs)"
proof (induction xs arbitrary: e)
  case Nil
  then show ?case by simp
next
  case (Cons x xs)
  show ?case
  proof (cases "r = x")
    case True
    then have "check_block e r \<in> set (scan e (x # xs))" by simp
    then show ?thesis ..
  next
    case False
    with Cons.prems have "r \<in> set xs" by simp
    from Cons.IH [OF this, of "current_hash x"] obtain e' where "check_block e' r \<in> set (scan (current_hash x) xs)" ..
    then have "check_block e' r \<in> set (scan e (x # xs))" by simp
    then show ?thesis ..
  qed
qed

lemma insort_key_map:
  assumes "\<And>x. k (f x) = k x"
  shows "insort_key k (f x) (map f ys) = map f (insort_key k x ys)"
  by (induction ys) (simp_all add: assms)

lemma sort_key_map_same_key:
  assumes "\<And>x. k (f x) = k x"
  shows "sort_key k (map f xs) = map f (sort_key k xs)"
  by (induction xs) (simp_all add: insort_key_map [where k = k and f = f, OF assms])

lemma link_issues_filter: "filter is_link_issue (link_issues e r) = link_issues e r"
  by (simp add: link_issues_def)

lemma hash_issues_filter: "filter is_link_issue (hash_issues r) = []"
  by (simp add: hash_issues_def split: option.splits)

lemma link_part_check: "link_part (check_block e r) = link_issues e r"
  by (simp add: link_part_def check_block_def link_issues_filter hash_issues_filter)

lemma scan_mutated:
  assumes "\<And>r. row_id (f r) = row_id r" and "\<And>r. previous_hash (f r) = previous_hash r"
    and "\<And>r. current_hash (f r) = current_hash r" and "\<And>r. row_id r \<noteq> i \<Longrightarrow> f r = r"
  shows "list_all2 (\<lambda>a b. block_id a = block_id b \<and> link_part a = link_part b
                          \<and> (block_id a \<noteq> i \<longrightarrow> a = b))
           (scan e xs) (scan e (map f xs))"
proof (induction xs arbitrary: e)
  case Nil
  show ?case by simp
next
  case (Cons x xs)
  have l: "link_issues e (f x) = link_issues e x" by (simp add: link_issues_def assms(2))
  have "block_id (check_block e x) = block_id (check_block e (f x))"
    by (simp add: check_block_def assms(1))
  moreover have "link_part (check_block e x) = link_part (check_block e (f x))"
    by (simp add: link_part_check l)
  moreover have "block_id (check_block e x) \<noteq> i \<longrightarrow> check_block e x = check_block e (f x)"
    by (simp add: check_block_def assms(4))
  ultimately show ?case using Cons.IH [of "current_hash x"] by (simp add: assms(3))
qed

text \<open>
  The link check is isolated. When the payload and the timestamp of the row with id \<open>i\<close>
  are rewritten in the store and nothing else is, the reports before and after are, entry
  by entry, about the same block and carry the same previous-hash link issues, and they are
  equal wherever the block is not \<open>i\<close>: the running expected hash is the stored
  \<open>current_hash\<close>.
\<close>

lemma mutation_isolated:
  "list_all2 (\<lambda>a b. block_id a = block_id b \<and> link_part a = link_part b
                      \<and> (block_id a \<noteq> i \<longrightarrow> a = b))
     (integrity_report d) (integrity_report (mutate_row i data ts d))"
proof -
  let ?f = "\<lambda>r. if row_id r = i then r\<lparr>block_data := data, timestamp := ts\<rparr> else r"
  have "select_all (mutate_row i data ts d) = sort_key row_id (map ?f (rows d))"
    by (simp add: select_all_def mutate_row_def)
  also have "\<dots> = map ?f (sort_key row_id (rows d))"
    by (rule sort_key_map_same_key) simp
  finally have s: "select_all (mutate_row i data ts d) = map ?f (select_all d)"
    by (simp add: select_all_def)
  show ?thesis
    unfolding integrity_report_def s
    by (rule scan_mutated) simp_all
qed

text \<open>The report has one entry for every row of the table, in the order of the ids.\<close>

lemma report_covers_rows:
  "map block_id (integrity_report d) = map row_id (sort_key row_id (rows d))"
  by (simp add: integrity_report_def select_all_def scan_ids)

subsection \<open>The reference runs\<close>

text \<open>The digests of the runs, evaluated in the logic.\<close>

lemma hash_A0:
  "calculate_hash (PDict (block_A 0)) = ''2e858bd6a2be40f83ed44be8068d58234f2b5a0ae4fd947be9972eb895eaeee8''"
  by code_simp

lemma hash_A1: "calculate_hash (PDict (block_A 1)) = hash_A"
  by code_simp

lemma hash_Av:
  "calculate_hash (test_block row_A order_A) = ''5a670153c30539adb5ced57ebe5fa9f016e937b65de1eff23ea3db41c71da0e1''"
  by code_simp

lemma hash_Af:
  "calculate_hash (test_block row_A_forged order_A_forged) = ''3642567e0531848fdcd59d00f18b72b9397f6ae01728f663ef33c46129ca8eb6''"
  by code_simp

lemma hash_B0: "calculate_hash (PDict (block_B 0)) = hash_B"
  by code_simp

lemma hash_Bv:
  "calculate_hash (test_block row_B order_B) = ''90bb83d685607b07531562cdf80e5dc59f127ee84137508da8323ccff7c14392''"
  by code_simp

lemma loads_A: "json_loads (json_dumps order_A) = Some order_A"
  by code_simp

lemma loads_Af: "json_loads (json_dumps order_A_forged) = Some order_A_forged"
  by code_simp

lemma loads_B: "json_loads (json_dumps order_B) = Some order_B"
  by code_simp

lemma init_chain: "init now d = \<lparr>chain = [genesis_block now], store = d\<rparr>"
  by (simp add: init_def create_genesis_block_def)

lemma zero_prefix_2: "zero_prefix 2 = ''00''"
  by (simp add: zero_prefix_def numeral_2_eq_2)

lemma slice_to_2: "slice_to (a # b # r) 2 = [a, b]"
  by (simp add: slice_to_def numeral_2_eq_2)

text \<open>Order A: the search ends at nonce 1.\<close>

lemma latest_of_stores:
  "get_latest_block empty_store = Inr None"
  "get_latest_block offline_store = Inr None"
  "get_latest_block locked_store = Inr None"
  "get_latest_block tableless_store = Inl OperationalError"
  "get_latest_block store_A = Inr (Some row_A)"
  by (simp_all add: get_latest_block_def empty_store_def offline_store_def locked_store_def
      tableless_store_def store_A_def)

lemma new_block_A: "new_block now_A None order_A = block_A 0"
  by (simp add: new_block_def block_A_def)

lemma incr_A: "incr_nonce (PDict (block_A 0)) = Inr (PDict (block_A 1))"
  by (simp add: block_A_def)

lemma mine_loop_A: "mine_loop (PDict (block_A 0)) 2 = Some (Inr hash_A)"
proof -
  have s1: "mine_loop (PDict (block_A 1)) 2 = Some (Inr hash_A)"
    by (subst mine_loop.simps) (simp add: hash_A1 hash_A_def slice_to_2 zero_prefix_2)
  have "mine_loop (PDict (block_A 0)) 2 = mine_loop (PDict (block_A 1)) 2"
    by (subst mine_loop.simps) (simp add: hash_A0 incr_A slice_to_2 zero_prefix_2 del: incr_nonce.simps)
  with s1 show ?thesis by simp
qed

lemma mined_A_eq: "PDict (dict_set (block_A 0) ''hash'' (PStr hash_A)) = mined_A"
  by (simp add: block_A_def mined_A_def)

lemma store_A_step:
  "store_block_in_db db_now_A (dict_set (block_A 0) ''hash'' (PStr hash_A)) empty_store = Inr (True, store_A)"
  by (simp add: store_block_in_db_def empty_store_def block_A_def order_A_def insert_row_def next_id_def
      store_A_def row_A_def)

lemma append_A:
  "add_order_to_blockchain now_A db_now_A order_A (init now_0 empty_store) = Some (mined_A, world_A)"
  by (simp add: add_order_to_blockchain_def init_chain latest_of_stores new_block_A mine_loop_A
      store_A_step mined_A_eq world_A_def)

lemma append_A_offline:
  "add_order_to_blockchain now_A db_now_A order_A (init now_0 offline_store)
     = Some (mined_A, \<lparr>chain = [genesis_block now_0, mined_A], store = offline_store\<rparr>)"
proof -
  have "store_block_in_db db_now_A (dict_set (block_A 0) ''hash'' (PStr hash_A)) offline_store
          = Inr (False, offline_store)"
    by (simp add: store_block_in_db_def offline_store_def)
  then show ?thesis
    by (simp add: add_order_to_blockchain_def init_chain latest_of_stores new_block_A mine_loop_A
        mined_A_eq)
qed

lemma append_A_locked:
  "add_order_to_blockchain now_A db_now_A order_A (init now_0 locked_store)
     = Some (PNone, init now_0 locked_store)"
proof -
  have "store_block_in_db db_now_A (dict_set (block_A 0) ''hash'' (PStr hash_A)) locked_store
          = Inl OperationalError"
    by (simp add: store_block_in_db_def locked_store_def block_A_def order_A_def)
  then show ?thesis
    by (simp add: add_order_to_blockchain_def init_chain latest_of_stores new_block_A mine_loop_A)
qed

lemma row_A_fields:
  "row_id row_A = 1" "order_id row_A = PInt 1" "previous_hash row_A = Some zeros64"
  "current_hash row_A = Some hash_A" "block_data row_A = Some (json_dumps order_A)"
  "timestamp row_A = Some db_now_A"
  by (simp_all add: row_A_def)

lemma hash_issues_A:
  "hash_issues row_A = [HashMismatch ''5a670153c30539adb5ced57ebe5fa9f016e937b65de1eff23ea3db41c71da0e1'' (Some hash_A)]"
  by (simp add: hash_issues_def row_A_fields loads_A hash_Av hash_A_def)

lemma report_A:
  "integrity_report store_A =
     [\<lparr>block_id = 1, status_order_id = PInt 1, status = TAMPERED,
       issues = [HashMismatch ''5a670153c30539adb5ced57ebe5fa9f016e937b65de1eff23ea3db41c71da0e1'' (Some hash_A)]\<rparr>]"
  by (simp add: integrity_report_def select_all_def store_A_def check_block_def hash_issues_A
      link_issues_def row_A_fields)

lemma verify_A:
  "verify_blockchain_integrity store_A
     = Inr (False, ''Blockchain integrity compromised. 1 blocks tampered.'')"
  unfolding verify_blockchain_integrity_def tampered_blocks_def report_A
  by (simp add: store_A_def nat_repr.simps)

text \<open>Order B: the search ends at nonce 0.\<close>

lemma new_block_B: "new_block now_B (Some row_A) order_B = block_B 0"
  by (simp add: new_block_def row_A_fields block_B_def)

lemma mine_loop_B: "mine_loop (PDict (block_B 0)) 2 = Some (Inr hash_B)"
  by (subst mine_loop.simps) (simp add: hash_B0 hash_B_def slice_to_2 zero_prefix_2)

lemma mined_B_eq: "PDict (dict_set (block_B 0) ''hash'' (PStr hash_B)) = mined_B"
  by (simp add: block_B_def mined_B_def)

lemma store_B_step:
  "store_block_in_db db_now_B (dict_set (block_B 0) ''hash'' (PStr hash_B)) store_A = Inr (True, store_AB)"
  by (simp add: store_block_in_db_def store_A_def block_B_def order_B_def insert_row_def next_id_def
      store_AB_def row_B_def row_A_fields)

lemma append_B:
  "add_order_to_blockchain now_B db_now_B order_B world_A = Some (mined_B, world_AB)"
  by (simp add: add_order_to_blockchain_def world_A_def latest_of_stores new_block_B mine_loop_B
      store_B_step mined_B_eq world_AB_def)

lemma row_B_fields:
  "row_id row_B = 2" "order_id row_B = PInt 0" "previous_hash row_B = Some hash_A"
  "current_hash row_B = Some hash_B" "block_data row_B = Some (json_dumps order_B)"
  "timestamp row_B = Some db_now_B"
  by (simp_all add: row_B_def)

lemma hash_issues_B:
  "hash_issues row_B = [HashMismatch ''90bb83d685607b07531562cdf80e5dc59f127ee84137508da8323ccff7c14392'' (Some hash_B)]"
  by (simp add: hash_issues_def row_B_fields loads_B hash_Bv hash_B_def)

lemma select_AB: "select_all store_AB = [row_A, row_B]"
  by (simp add: select_all_def store_AB_def row_A_fields row_B_fields)

lemma report_AB:
  "integrity_report store_AB =
     [\<lparr>block_id = 1, status_order_id = PInt 1, status = TAMPERED,
       issues = [HashMismatch ''5a670153c30539adb5ced57ebe5fa9f016e937b65de1eff23ea3db41c71da0e1'' (Some hash_A)]\<rparr>,
      \<lparr>block_id = 2, status_order_id = PInt 0, status = TAMPERED,
       issues = [HashMismatch ''90bb83d685607b07531562cdf80e5dc59f127ee84137508da8323ccff7c14392'' (Some hash_B)]\<rparr>]"
  by (simp add: integrity_report_def select_AB check_block_def hash_issues_A hash_issues_B
      link_issues_def row_A_fields row_B_fields)

text \<open>The payload of row A rewritten in the store.\<close>

lemma row_A_forged_fields:
  "row_id row_A_forged = 1" "order_id row_A_forged = PInt 1" "previous_hash row_A_forged = Some zeros64"
  "current_hash row_A_forged = Some hash_A"
  "block_data row_A_forged = Some (json_dumps order_A_forged)"
  "timestamp row_A_forged = Some db_now_A"
  by (simp_all add: row_A_forged_def)

lemma select_forged:
  "select_all (mutate_row 1 (Some (json_dumps order_A_forged)) (Some db_now_A) store_AB)
     = [row_A_forged, row_B]"
  by (simp add: select_all_def mutate_row_def store_AB_def row_A_fields row_B_fields
      row_A_forged_fields)

lemma hash_issues_Af:
  "hash_issues row_A_forged = [HashMismatch ''3642567e0531848fdcd59d00f18b72b9397f6ae01728f663ef33c46129ca8eb6'' (Some hash_A)]"
  by (simp add: hash_issues_def row_A_forged_fields loads_Af hash_Af hash_A_def)

lemma report_forged:
  "integrity_report (mutate_row 1 (Some (json_dumps order_A_forged)) (Some db_now_A) store_AB) =
     [\<lparr>block_id = 1, status_order_id = PInt 1, status = TAMPERED,
       issues = [HashMismatch ''3642567e0531848fdcd59d00f18b72b9397f6ae01728f663ef33c46129ca8eb6'' (Some hash_A)]\<rparr>,
      \<lparr>block_id = 2, status_order_id = PInt 0, status = TAMPERED,
       issues = [HashMismatch ''90bb83d685607b07531562cdf80e5dc59f127ee84137508da8323ccff7c14392'' (Some hash_B)]\<rparr>]"
  by (simp add: integrity_report_def select_forged check_block_def hash_issues_Af hash_issues_B
      link_issues_def row_A_forged_fields row_B_fields)

text \<open>The file without the table.\<close>

lemma verify_tableless: "verify_blockchain_integrity tableless_store = Inl OperationalError"
  by (simp add: verify_blockchain_integrity_def tableless_store_def)

section \<open>The claims\<close>

subsection \<open>Verification of a freshly appended chain\<close>

text \<open>
  C1. A freshly appended chain does not verify. One order is appended by
  \<open>add_order_to_blockchain\<close> to the empty, reachable store of a new ledger and no row is
  touched afterwards; the block is mined at nonce 1 and stored with the hash of that search.
  \<open>verify_blockchain_integrity\<close> then recomputes the hash of the row with nonce 0 and with
  the store's own timestamp instead of the block's, finds another digest, marks the block
  \<open>TAMPERED\<close> and returns \<open>False\<close>.
\<close>

theorem fresh_block_reported_tampered:
  "add_order_to_blockchain now_A db_now_A order_A (init now_0 empty_store) = Some (mined_A, world_A)
   \<and> store world_A = store_A
   \<and> integrity_report store_A =
       [\<lparr>block_id = 1, status_order_id = PInt 1, status = TAMPERED,
         issues = [HashMismatch ''5a670153c30539adb5ced57ebe5fa9f016e937b65de1eff23ea3db41c71da0e1''
                     (Some hash_A)]\<rparr>]
   \<and> verify_blockchain_integrity store_A
       = Inr (False, ''Blockchain integrity compromised. 1 blocks tampered.'')"
  by (simp add: append_A report_A verify_A world_A_def)

subsection \<open>Appending without a store\<close>

text \<open>
  C2. Appending does not fail when the store cannot be reached. With no connection
  \<open>get_latest_block\<close> yields \<open>None\<close>, so the block is built on the genesis digest with
  index 1 and mined; \<open>store_block_in_db\<close> returns \<open>False\<close>, which
  \<open>add_order_to_blockchain\<close> does not look at; the block is appended to the in-memory chain
  and returned, and no row is written.
\<close>

theorem append_without_store_returns_block:
  "\<not> reachable offline_store
   \<and> add_order_to_blockchain now_A db_now_A order_A (init now_0 offline_store)
       = Some (mined_A, \<lparr>chain = [genesis_block now_0, mined_A], store = offline_store\<rparr>)
   \<and> mined_A \<noteq> PNone
   \<and> rows offline_store = []"
  by (simp add: append_A_offline) (simp add: offline_store_def mined_A_def)

subsection \<open>Determinism of the hash\<close>

text \<open>
  C3. \<open>calculate_hash\<close> is a function of the content of the block: two representations with
  equal content, whatever the insertion order of the fields of the block or of any
  dictionary nested in it, have the same hex digest.
\<close>

theorem calculate_hash_same_content:
  "same_content a b \<Longrightarrow> calculate_hash a = calculate_hash b"
  by (simp add: calculate_hash_def dumps_sorted_same_content)

text \<open>Block A and a permuted representation of it.\<close>

theorem calculate_hash_same_content_witness:
  "same_content (PDict (block_A 0)) (PDict block_A_permuted)
   \<and> block_A 0 \<noteq> block_A_permuted
   \<and> calculate_hash (PDict (block_A 0)) = calculate_hash (PDict block_A_permuted)"
  using calculate_hash_same_content [of "PDict (block_A 0)" "PDict block_A_permuted"]
  by (simp add: block_A_def block_A_permuted_def order_A_def)

subsection \<open>The nonce of a mined block\<close>

text \<open>
  C4. The block that \<open>add_order_to_blockchain\<close> returns does not carry the winning nonce.
  \<open>mine_block\<close> searches on a copy of the block and returns the hash only; the block
  itself keeps nonce 0. For order A the search ends at nonce 1: the returned block has nonce
  0 and the hash found at nonce 1, which is not the hash of the block at nonce 0. The stored
  row has no nonce at all.
\<close>

theorem returned_block_keeps_nonce_zero:
  "add_order_to_blockchain now_A db_now_A order_A (init now_0 empty_store) = Some (mined_A, world_A)
   \<and> mined_A = PDict (block_A 0 @ [(''hash'', PStr hash_A)])
   \<and> dict_lookup (block_A 0 @ [(''hash'', PStr hash_A)]) ''nonce'' = Inr (PInt 0)
   \<and> dict_lookup (block_A 0 @ [(''hash'', PStr hash_A)]) ''hash'' = Inr (PStr hash_A)
   \<and> mine_block (PDict (block_A 0)) 2 = Some (Inr hash_A)
   \<and> calculate_hash (PDict (block_A 1)) = hash_A
   \<and> calculate_hash (PDict (block_A 0)) \<noteq> hash_A"
  by (simp add: append_A mine_loop_A hash_A1 hash_A0)
    (simp add: mined_A_def block_A_def hash_A_def)

subsection \<open>Proof of work\<close>

text \<open>
  C5. Whatever the block and the difficulty \<open>d\<close>, a hash that \<open>mine_block\<close> returns
  begins with \<open>d\<close> characters \<open>0\<close> (for a negative \<open>d\<close> nothing is required of it).
  At the default difficulty of \<open>add_order_to_blockchain\<close>, with a reachable store, the
  hash of the returned block is the \<open>current_hash\<close> of the row that was added, and it
  begins with \<open>00\<close>.
\<close>

theorem mine_block_leading_zeros:
  "(mine_block block difficulty = Some (Inr h)
      \<longrightarrow> take (nat difficulty) h = replicate (nat difficulty) CHR ''0'')
   \<and> (reachable (store w) \<longrightarrow>
        add_order_to_blockchain now db_now order_data w = Some (PDict b, w') \<longrightarrow>
        (\<exists>r h'. rows (store w') = rows (store w) @ [r] \<and> current_hash r = Some h'
                  \<and> dict_lookup b ''hash'' = Inr (PStr h') \<and> take 2 h' = ''00''))"
proof -
  have one: "take (nat d) x = replicate (nat d) CHR ''0''"
    if "mine_block blk d = Some (Inr x)" for blk d x
  proof -
    from that have p: "slice_to x d = zero_prefix d" by (rule mine_block_prefix)
    show ?thesis
    proof (cases "0 \<le> d")
      case True
      with p show ?thesis by (simp add: slice_to_def zero_prefix_def)
    next
      case False
      then show ?thesis by simp
    qed
  qed
  have two: "\<exists>r h'. rows (store w') = rows (store w) @ [r] \<and> current_hash r = Some h'
                  \<and> dict_lookup b ''hash'' = Inr (PStr h') \<and> take 2 h' = ''00''"
    if r: "reachable (store w)"
      and a: "add_order_to_blockchain now db_now order_data w = Some (PDict b, w')"
  proof -
    from add_order_block [OF a] obtain latest x stored
      where m: "mine_block (PDict (new_block now latest order_data)) 2 = Some (Inr x)"
        and b: "b = dict_set (new_block now latest order_data) ''hash'' (PStr x)"
        and st: "store_block_in_db db_now b (store w) = Inr (stored, store w')"
      by blast
    from store_block_reachable [OF r st [unfolded b]] obtain row
      where rows': "rows (store w') = rows (store w) @ [row]" and cur: "current_hash row = Some x"
      by auto
    from one [OF m] have z: "take 2 x = ''00''" by (simp add: numeral_2_eq_2)
    have "dict_lookup b ''hash'' = Inr (PStr x)" by (simp add: b dict_lookup_set_same)
    with rows' cur z show ?thesis by blast
  qed
  from one two show ?thesis by blast
qed

text \<open>Block A at the default difficulty.\<close>

theorem mine_block_leading_zeros_witness:
  "mine_block (PDict (block_A 0)) 2 = Some (Inr hash_A)
   \<and> take 2 hash_A = ''00''
   \<and> reachable (store (init now_0 empty_store))
   \<and> add_order_to_blockchain now_A db_now_A order_A (init now_0 empty_store) = Some (mined_A, world_A)
   \<and> (\<exists>r h'. rows (store world_A) = rows (store (init now_0 empty_store)) @ [r]
          \<and> current_hash r = Some h'
          \<and> dict_lookup (block_A 0 @ [(''hash'', PStr hash_A)]) ''hash'' = Inr (PStr h')
          \<and> take 2 h' = ''00'')"
proof -
  note t = mine_block_leading_zeros [where block = "PDict (block_A 0)" and difficulty = 2
      and h = hash_A and w = "init now_0 empty_store" and now = now_A and db_now = db_now_A
      and order_data = order_A and b = "block_A 0 @ [(''hash'', PStr hash_A)]" and w' = world_A]
  have m: "mine_block (PDict (block_A 0)) 2 = Some (Inr hash_A)"
    using mine_loop_A by simp
  have r: "reachable (store (init now_0 empty_store))"
    by (simp add: init_chain empty_store_def)
  have a: "add_order_to_blockchain now_A db_now_A order_A (init now_0 empty_store)
             = Some (PDict (block_A 0 @ [(''hash'', PStr hash_A)]), world_A)"
    using append_A by (simp add: mined_A_def)
  from conjunct1 [OF t] m have "take (nat 2) hash_A = replicate (nat 2) CHR ''0''"
    by (rule mp)
  then have z: "take 2 hash_A = ''00''" by (simp add: numeral_2_eq_2)
  from conjunct2 [OF t] r
  have "add_order_to_blockchain now_A db_now_A order_A (init now_0 empty_store)
          = Some (PDict (block_A 0 @ [(''hash'', PStr hash_A)]), world_A) \<longrightarrow>
        (\<exists>r h'. rows (store world_A) = rows (store (init now_0 empty_store)) @ [r]
          \<and> current_hash r = Some h'
          \<and> dict_lookup (block_A 0 @ [(''hash'', PStr hash_A)]) ''hash'' = Inr (PStr h')
          \<and> take 2 h' = ''00'')"
    by (rule mp)
  then have e: "\<exists>r h'. rows (store world_A) = rows (store (init now_0 empty_store)) @ [r]
          \<and> current_hash r = Some h'
          \<and> dict_lookup (block_A 0 @ [(''hash'', PStr hash_A)]) ''hash'' = Inr (PStr h')
          \<and> take 2 h' = ''00''"
    using a by (rule mp)
  show ?thesis
    by (rule conjI, rule m, rule conjI, rule z, rule conjI, rule r, rule conjI, rule append_A, rule e)
qed

subsection \<open>Linking to the tip\<close>

text \<open>
  C6. With a reachable store, a block that \<open>add_order_to_blockchain\<close> returns has as
  \<open>previous_hash\<close> the \<open>current_hash\<close> of the row with the greatest id (the 64 zeros
  when the table is empty) and as \<open>index\<close> that id plus one (1 when the table is empty);
  its own hash is the \<open>current_hash\<close> of the new greatest row, and the block returned by
  any next append has that hash as its \<open>previous_hash\<close>.
\<close>

theorem append_links_to_tip:
  assumes "reachable (store w)"
    and "add_order_to_blockchain now db_now order_data w = Some (PDict b, w')"
  shows "dict_lookup b ''previous_hash''
           = Inr (case latest_row (rows (store w)) of
                    None \<Rightarrow> PStr zeros64 | Some tip \<Rightarrow> cell (current_hash tip))
       \<and> dict_lookup b ''index''
           = Inr (PInt (case latest_row (rows (store w)) of
                          None \<Rightarrow> 1 | Some tip \<Rightarrow> row_id tip + 1))
       \<and> (\<exists>tip'. latest_row (rows (store w')) = Some tip'
              \<and> dict_lookup b ''hash'' = Inr (cell (current_hash tip')))
       \<and> (\<forall>now' db_now' order_data' b' w''.
             add_order_to_blockchain now' db_now' order_data' w' = Some (PDict b', w'')
             \<longrightarrow> dict_lookup b' ''previous_hash'' = dict_lookup b ''hash'')"
proof -
  from add_order_block [OF assms(2)] obtain latest h stored
    where g: "get_latest_block (store w) = Inr latest"
      and b: "b = dict_set (new_block now latest order_data) ''hash'' (PStr h)"
      and st: "store_block_in_db db_now b (store w) = Inr (stored, store w')"
    by blast
  from get_latest_block_reachable [OF assms(1) g]
  have rd: "readable (store w)" and latest: "latest = latest_row (rows (store w))"
    by simp_all
  have prev: "dict_lookup b ''previous_hash''
           = Inr (case latest_row (rows (store w)) of
                    None \<Rightarrow> PStr zeros64 | Some tip \<Rightarrow> cell (current_hash tip))"
    by (simp add: b dict_lookup_set_other new_block_lookups latest split: option.splits)
  have idx: "dict_lookup b ''index''
           = Inr (PInt (case latest_row (rows (store w)) of
                          None \<Rightarrow> 1 | Some tip \<Rightarrow> row_id tip + 1))"
    by (simp add: b dict_lookup_set_other new_block_lookups latest split: option.splits)
  have hash: "dict_lookup b ''hash'' = Inr (PStr h)"
    by (simp add: b dict_lookup_set_same)
  from store_block_reachable [OF assms(1) st [unfolded b]] obtain r
    where rows': "rows (store w') = rows (store w) @ [r]"
      and rid: "row_id r = next_id (store w)"
      and rcur: "current_hash r = Some h"
      and reach': "reachable (store w')" and rd': "readable (store w') = readable (store w)"
    by auto
  have "\<forall>x \<in> set (rows (store w)). row_id x < row_id r"
    by (simp add: rid next_id_gt)
  then have tip': "latest_row (rows (store w')) = Some r"
    unfolding rows' by (rule latest_row_append)
  have next_prev: "dict_lookup b' ''previous_hash'' = dict_lookup b ''hash''"
    if a: "add_order_to_blockchain now' db_now' order_data' w' = Some (PDict b', w'')"
    for now' db_now' order_data' b' w''
  proof -
    from add_order_block [OF a] obtain latest' h'
      where g': "get_latest_block (store w') = Inr latest'"
        and b': "b' = dict_set (new_block now' latest' order_data') ''hash'' (PStr h')"
      by blast
    from get_latest_block_reachable [OF reach' g'] tip' have "latest' = Some r"
      by simp
    then show ?thesis
      by (simp add: b' hash dict_lookup_set_other new_block_lookups rcur)
  qed
  from tip' hash rcur have "\<exists>tip'. latest_row (rows (store w')) = Some tip'
              \<and> dict_lookup b ''hash'' = Inr (cell (current_hash tip'))"
    by simp
  with prev idx next_prev show ?thesis by blast
qed

text \<open>Order A, then order B.\<close>

theorem append_links_to_tip_witness:
  "reachable (store (init now_0 empty_store))
   \<and> add_order_to_blockchain now_A db_now_A order_A (init now_0 empty_store) = Some (mined_A, world_A)
   \<and> add_order_to_blockchain now_B db_now_B order_B world_A = Some (mined_B, world_AB)
   \<and> dict_lookup (block_A 0 @ [(''hash'', PStr hash_A)]) ''previous_hash'' = Inr (PStr zeros64)
   \<and> dict_lookup (block_A 0 @ [(''hash'', PStr hash_A)]) ''index'' = Inr (PInt 1)
   \<and> dict_lookup (block_B 0 @ [(''hash'', PStr hash_B)]) ''previous_hash''
       = dict_lookup (block_A 0 @ [(''hash'', PStr hash_A)]) ''hash''"
proof -
  have r: "reachable (store (init now_0 empty_store))"
    by (simp add: init_chain empty_store_def)
  have a: "add_order_to_blockchain now_A db_now_A order_A (init now_0 empty_store)
             = Some (PDict (block_A 0 @ [(''hash'', PStr hash_A)]), world_A)"
    using append_A by (simp add: mined_A_def)
  have b: "add_order_to_blockchain now_B db_now_B order_B world_A
             = Some (PDict (block_B 0 @ [(''hash'', PStr hash_B)]), world_AB)"
    using append_B by (simp add: mined_B_def)
  have e: "rows (store (init now_0 empty_store)) = []"
    by (simp add: init_chain empty_store_def)
  note t = append_links_to_tip [OF r a]
  from t have "dict_lookup (block_A 0 @ [(''hash'', PStr hash_A)]) ''previous_hash'' = Inr (PStr zeros64)"
    and "dict_lookup (block_A 0 @ [(''hash'', PStr hash_A)]) ''index'' = Inr (PInt 1)"
    by (simp_all add: e)
  moreover from t b have "dict_lookup (block_B 0 @ [(''hash'', PStr hash_B)]) ''previous_hash''
       = dict_lookup (block_A 0 @ [(''hash'', PStr hash_A)]) ''hash''"
    by blast
  ultimately show ?thesis using r append_A append_B by simp
qed

subsection \<open>A mutated row\<close>

text \<open>
  C7. After a mutation of one row, the block of that row is not the only one reported.
  Orders A and B are appended, then the payload of row 1 is rewritten in the store with
  another total, its \<open>current_hash\<close> left as it was. The report marks block 1
  \<open>TAMPERED\<close> with a hash mismatch, and block 2, which nobody touched, \<open>TAMPERED\<close>
  with a hash mismatch too: its hash was mined over the block's own timestamp, and is
  recomputed over the store's.
\<close>

theorem mutation_flags_untouched_block:
  "add_order_to_blockchain now_A db_now_A order_A (init now_0 empty_store) = Some (mined_A, world_A)
   \<and> add_order_to_blockchain now_B db_now_B order_B world_A = Some (mined_B, world_AB)
   \<and> store world_AB = store_AB
   \<and> integrity_report (mutate_row 1 (Some (json_dumps order_A_forged)) (Some db_now_A) store_AB) =
       [\<lparr>block_id = 1, status_order_id = PInt 1, status = TAMPERED,
         issues = [HashMismatch ''3642567e0531848fdcd59d00f18b72b9397f6ae01728f663ef33c46129ca8eb6''
                     (Some hash_A)]\<rparr>,
        \<lparr>block_id = 2, status_order_id = PInt 0, status = TAMPERED,
         issues = [HashMismatch ''90bb83d685607b07531562cdf80e5dc59f127ee84137508da8323ccff7c14392''
                     (Some hash_B)]\<rparr>]"
  by (simp add: append_A append_B report_forged world_AB_def)

subsection \<open>Verification of a store that cannot be read\<close>

text \<open>
  C8. \<open>verify_blockchain_integrity\<close> does not return a result for every state of the
  store. Without a connection it returns \<open>False\<close> with the message \<open>Database
  connection failed\<close>. With a connection to a file that has no table, the \<open>SELECT\<close>
  raises \<open>sqlite3.OperationalError\<close>, which nothing catches: the function raises.
\<close>

theorem verify_raises_without_table:
  "reachable tableless_store
   \<and> verify_blockchain_integrity tableless_store = Inl OperationalError
   \<and> verify_blockchain_integrity offline_store = Inr (False, ''Database connection failed'')"
  by (simp add: verify_tableless)
    (simp add: verify_blockchain_integrity_def tableless_store_def offline_store_def)

subsection \<open>The genesis block\<close>

text \<open>
  C9. \<open>create_genesis_block\<close> leaves the store as it is: the genesis block is in the
  in-memory chain only. A new ledger over a reachable store whose table has no rows has the
  genesis block as its whole chain and still no row, and \<open>verify_blockchain_integrity\<close>
  returns \<open>True\<close>.
\<close>

theorem genesis_not_persisted:
  "reachable d \<Longrightarrow> readable d \<Longrightarrow> rows d = [] \<Longrightarrow>
     store (init now d) = d \<and> chain (init now d) = [genesis_block now]
     \<and> store (create_genesis_block now w) = store w
     \<and> verify_blockchain_integrity (store (init now d))
         = Inr (True, ''Blockchain integrity verified successfully.'')"
  by (simp add: init_def create_genesis_block_def verify_blockchain_integrity_def tampered_blocks_def
      integrity_report_def select_all_def)

text \<open>A new ledger over the empty store.\<close>

theorem genesis_not_persisted_witness:
  "reachable empty_store \<and> readable empty_store \<and> rows empty_store = []
   \<and> store (init now_0 empty_store) = empty_store
   \<and> chain (init now_0 empty_store) = [genesis_block now_0]
   \<and> verify_blockchain_integrity (store (init now_0 empty_store))
       = Inr (True, ''Blockchain integrity verified successfully.'')"
proof -
  have r: "reachable empty_store" and rd: "readable empty_store" and e: "rows empty_store = []"
    by (simp_all add: empty_store_def)
  from genesis_not_persisted [OF r rd e, of now_0 "init now_0 empty_store"] r rd e
  show ?thesis by blast
qed

subsection \<open>A payload without an order id\<close>

text \<open>
  C10. A payload dictionary that has no key \<open>order_id\<close> is appended like any other. With
  a store that is reachable, readable and writable, and some nonce \<open>n\<close> at which the
  hash of the new block begins with \<open>00\<close>, \<open>add_order_to_blockchain\<close> returns, and
  what it returns is the block, not \<open>None\<close>: the block is added to the chain and one row
  is added to the table, with \<open>order_id\<close> 0 and the payload as \<open>block_data\<close>. 0 is
  also the \<open>order_id\<close> in the data of the genesis block.
\<close>

theorem append_without_order_id:
  assumes "reachable (store w)" and "readable (store w)" and "writable (store w)"
    and "''order_id'' \<notin> fst ` set kvs"
    and "0 \<le> n"
    and "slice_to (calculate_hash (PDict (dict_set
            (new_block now (latest_row (rows (store w))) (PDict kvs)) ''nonce'' (PInt n)))) 2
           = zero_prefix 2"
  shows "\<exists>b w'. add_order_to_blockchain now db_now (PDict kvs) w = Some (PDict b, w')
           \<and> chain w' = chain w @ [PDict b]
           \<and> (\<exists>r. rows (store w') = rows (store w) @ [r] \<and> order_id r = PInt 0
                    \<and> block_data r = Some (json_dumps (PDict kvs)))
           \<and> (\<exists>g gd. genesis_block now0 = PDict g \<and> dict_lookup g ''data'' = Inr (PDict gd)
                    \<and> dict_lookup gd ''order_id'' = Inr (PInt 0))"
proof -
  let ?nb = "new_block now (latest_row (rows (store w))) (PDict kvs)"
  from assms(1,2) have g: "get_latest_block (store w) = Inr (latest_row (rows (store w)))"
    by (simp add: get_latest_block_def)
  from assms(5) have n: "0 + int (nat n) = n" by simp
  from assms(6) have "slice_to (calculate_hash (PDict (dict_set ?nb ''nonce''
            (PInt (0 + int (nat n)))))) 2 = zero_prefix 2"
    by (simp only: n)
  from mine_loop_finds [OF this] obtain h
    where "mine_loop (PDict (dict_set ?nb ''nonce'' (PInt 0))) 2 = Some (Inr h)" ..
  then have m: "mine_block (PDict ?nb) 2 = Some (Inr h)"
    by (simp add: new_block_nonce_0)
  from new_block_prev_cell obtain c
    where c: "dict_lookup ?nb ''previous_hash'' = Inr (cell c)" by blast
  have st: "store_block_in_db db_now (dict_set ?nb ''hash'' (PStr h)) (store w)
      = Inr (True, insert_row (store w) (PInt 0) (cell c) (PStr h) (PStr (json_dumps (PDict kvs))) db_now)"
    using assms(1,3,4)
    by (simp add: store_block_in_db_def dict_lookup_set_same dict_lookup_set_other
        new_block_lookups(1) c dict_get_absent bind_cell)
  let ?b = "dict_set ?nb ''hash'' (PStr h)"
  let ?w' = "\<lparr>chain = chain w @ [PDict ?b],
              store = insert_row (store w) (PInt 0) (cell c) (PStr h)
                        (PStr (json_dumps (PDict kvs))) db_now\<rparr>"
  have a: "add_order_to_blockchain now db_now (PDict kvs) w = Some (PDict ?b, ?w')"
    by (simp add: add_order_to_blockchain_def g m st del: mine_block.simps json_dumps.simps)
  have rows': "\<exists>r. rows (store ?w') = rows (store w) @ [r] \<and> order_id r = PInt 0
                    \<and> block_data r = Some (json_dumps (PDict kvs))"
    by (simp add: insert_row_def del: json_dumps.simps)
  have gen: "\<exists>g gd. genesis_block now0 = PDict g \<and> dict_lookup g ''data'' = Inr (PDict gd)
                \<and> dict_lookup gd ''order_id'' = Inr (PInt 0)"
    by (simp add: genesis_block_def Let_def)
  have ch: "chain ?w' = chain w @ [PDict ?b]" by simp
  from a ch rows' gen show ?thesis by blast
qed

text \<open>Order B, which has no order id, after order A: the search ends at nonce 0.\<close>

theorem append_without_order_id_witness:
  "reachable (store world_A) \<and> readable (store world_A) \<and> writable (store world_A)
   \<and> ''order_id'' \<notin> fst ` set [(''customer'', PStr ''bob'')]
   \<and> slice_to (calculate_hash (PDict (dict_set
         (new_block now_B (latest_row (rows (store world_A))) (PDict [(''customer'', PStr ''bob'')]))
         ''nonce'' (PInt 0)))) 2 = zero_prefix 2
   \<and> (\<exists>b w'. add_order_to_blockchain now_B db_now_B (PDict [(''customer'', PStr ''bob'')]) world_A
                 = Some (PDict b, w')
           \<and> chain w' = chain world_A @ [PDict b]
           \<and> (\<exists>r. rows (store w') = rows (store world_A) @ [r] \<and> order_id r = PInt 0
                    \<and> block_data r = Some (json_dumps (PDict [(''customer'', PStr ''bob'')]))))
   \<and> add_order_to_blockchain now_B db_now_B order_B world_A = Some (mined_B, world_AB)
   \<and> order_id (last (rows (store world_AB))) = PInt 0"
proof -
  have s: "store world_A = store_A" by (simp add: world_A_def)
  have r: "reachable (store world_A)" and rd: "readable (store world_A)"
    and wr: "writable (store world_A)"
    by (simp_all add: world_A_def store_A_def)
  have k: "''order_id'' \<notin> fst ` set [(''customer'', PStr ''bob'')]" by simp
  have l: "latest_row (rows (store world_A)) = Some row_A"
    by (simp add: world_A_def store_A_def)
  have nb: "dict_set (new_block now_B (latest_row (rows (store world_A)))
                (PDict [(''customer'', PStr ''bob'')])) ''nonce'' (PInt 0) = block_B 0"
    unfolding l new_block_nonce_0 using new_block_B by (simp add: order_B_def)
  have p: "slice_to (calculate_hash (PDict (dict_set
         (new_block now_B (latest_row (rows (store world_A))) (PDict [(''customer'', PStr ''bob'')]))
         ''nonce'' (PInt 0)))) 2 = zero_prefix 2"
    unfolding nb by (simp add: hash_B0 hash_B_def slice_to_2 zero_prefix_2)
  have z: "(0::int) \<le> 0" by simp
  note t = append_without_order_id [OF r rd wr k z p, of db_now_B now_0]
  from t have e: "\<exists>b w'. add_order_to_blockchain now_B db_now_B (PDict [(''customer'', PStr ''bob'')]) world_A
                 = Some (PDict b, w')
           \<and> chain w' = chain world_A @ [PDict b]
           \<and> (\<exists>r. rows (store w') = rows (store world_A) @ [r] \<and> order_id r = PInt 0
                    \<and> block_data r = Some (json_dumps (PDict [(''customer'', PStr ''bob'')])))"
    by blast
  have la: "order_id (last (rows (store world_AB))) = PInt 0"
    by (simp add: world_AB_def store_AB_def row_B_fields)
  show ?thesis
    by (rule conjI, rule r, rule conjI, rule rd, rule conjI, rule wr, rule conjI, rule k,
        rule conjI, rule p, rule conjI, rule e, rule conjI, rule append_B, rule la)
qed

end
